theory Spec2Isabelle
  imports Complex_Main "HOL-Library.AList"
begin

section \<open>JavaScript values\<close>

text \<open>
  A JavaScript string is the list of its UTF-16 code units, each a natural number. A
  literal of the workers' source is written \<open>js ''...''\<close>: the code units of its characters.
\<close>

type_synonym ustring = "nat list"

definition js :: "string \<Rightarrow> ustring" where
  "js s = map of_char s"

text \<open>
  A JavaScript number is a double: not-a-number, one of the two infinities, or a finite
  value. Clamping with \<open>Math.min\<close> and \<open>Math.max\<close> never rounds, so the finite values
  are taken as reals.
\<close>

datatype number = NaN | NegInf | Fin real | PosInf

fun Math_max :: "number \<Rightarrow> number \<Rightarrow> number" where
  "Math_max NaN y = NaN"
| "Math_max x NaN = NaN"
| "Math_max PosInf y = PosInf"
| "Math_max x PosInf = PosInf"
| "Math_max NegInf y = y"
| "Math_max x NegInf = x"
| "Math_max (Fin x) (Fin y) = Fin (max x y)"

fun Math_min :: "number \<Rightarrow> number \<Rightarrow> number" where
  "Math_min NaN y = NaN"
| "Math_min x NaN = NaN"
| "Math_min NegInf y = NegInf"
| "Math_min x NegInf = NegInf"
| "Math_min PosInf y = y"
| "Math_min x PosInf = x"
| "Math_min (Fin x) (Fin y) = Fin (min x y)"

text \<open>\<open>in_range lo hi n\<close>: the number \<open>n\<close> is finite and lies in the closed interval.\<close>

fun in_range :: "real \<Rightarrow> real \<Rightarrow> number \<Rightarrow> bool" where
  "in_range lo hi (Fin x) = (lo \<le> x \<and> x \<le> hi)"
| "in_range lo hi n = False"

text \<open>
  The values a parsed JSON body, an upstream result or a response body is made of.
  An object is its list of properties (where a name is repeated, the first entry is the
  property; the order carries no meaning); \<open>JUndefined\<close> is what reading a missing
  property gives. The values of a parsed body are data: none of them is a function.
\<close>

datatype jv =
    JUndefined
  | JNull
  | JBool bool
  | JNum number
  | JStr ustring
  | JArr "jv list"
  | JObj "(ustring \<times> jv) list"

text \<open>
  An exception, with its message. The message of an exception that the runtime itself
  throws is worded by the runtime and names the place of the error; the texts used
  below stand for these wordings.
\<close>

datatype exn = SyntaxError ustring | TypeError ustring | Error ustring

fun message :: "exn \<Rightarrow> ustring" where
  "message (SyntaxError m) = m"
| "message (TypeError m) = m"
| "message (Error m) = m"

text \<open>Sequencing of steps that may throw: the first exception ends the sequence.\<close>

definition bnd :: "exn + 'a \<Rightarrow> ('a \<Rightarrow> exn + 'b) \<Rightarrow> exn + 'b" where
  "bnd x f = (case x of Inl ex \<Rightarrow> Inl ex | Inr v \<Rightarrow> f v)"

text \<open>
  Printing a number, reading a number from a string and lower-casing a string belong
  to the JavaScript runtime; the handlers are modelled for any runtime.
\<close>

record runtime =
  numToString :: "number \<Rightarrow> ustring"
  strToNumber :: "ustring \<Rightarrow> number"
  toLowerCase :: "ustring \<Rightarrow> ustring"

fun nullish :: "jv \<Rightarrow> bool" where
  "nullish JUndefined = True"
| "nullish JNull = True"
| "nullish v = False"

fun truthy :: "jv \<Rightarrow> bool" where
  "truthy JUndefined = False"
| "truthy JNull = False"
| "truthy (JBool b) = b"
| "truthy (JNum n) = (n \<noteq> NaN \<and> n \<noteq> Fin 0)"
| "truthy (JStr s) = (s \<noteq> [])"
| "truthy (JArr xs) = True"
| "truthy (JObj kvs) = True"

text \<open>\<open>a ?? b\<close> and \<open>a || b\<close>.\<close>

definition nc :: "jv \<Rightarrow> jv \<Rightarrow> jv" where
  "nc a b = (if nullish a then b else a)"

definition js_or :: "jv \<Rightarrow> jv \<Rightarrow> jv" where
  "js_or a b = (if truthy a then a else b)"

text \<open>
  \<open>v.k\<close> for a value \<open>v\<close> that is neither null nor undefined (there the access throws, and
  each handler below says so where its source can reach it). Only the own properties of
  an object are modelled; the handlers read no inherited property.
\<close>

fun js_get :: "jv \<Rightarrow> ustring \<Rightarrow> jv" where
  "js_get (JObj kvs) k = (case map_of kvs k of Some v \<Rightarrow> v | None \<Rightarrow> JUndefined)"
| "js_get v k = JUndefined"

text \<open>\<open>v?.k\<close>\<close>

definition opt_get :: "jv \<Rightarrow> ustring \<Rightarrow> jv" where
  "opt_get v k = (if nullish v then JUndefined else js_get v k)"

fun join_with :: "ustring \<Rightarrow> ustring list \<Rightarrow> ustring" where
  "join_with sep [] = []"
| "join_with sep [x] = x"
| "join_with sep (x # y # ys) = x @ sep @ join_with sep (y # ys)"

text \<open>
  \<open>String(v)\<close>, which is also how a template string prints \<open>v\<close>. An object is printed by
  its \<open>toString\<close> method. An object of a parsed body that has an own property of that
  name has no such method (the property is data and hides the inherited method, and the
  inherited \<open>valueOf\<close> gives back the object), so the conversion throws a TypeError. An
  array is printed by joining its elements, null printing as nothing.
\<close>

fun js_String :: "runtime \<Rightarrow> jv \<Rightarrow> exn + ustring"
and js_elems :: "runtime \<Rightarrow> jv list \<Rightarrow> exn + ustring list" where
  "js_String r JUndefined = Inr (js ''undefined'')"
| "js_String r JNull = Inr (js ''null'')"
| "js_String r (JBool b) = Inr (if b then js ''true'' else js ''false'')"
| "js_String r (JNum n) = Inr (numToString r n)"
| "js_String r (JStr s) = Inr s"
| "js_String r (JArr xs) =
     (case js_elems r xs of Inl ex \<Rightarrow> Inl ex | Inr ss \<Rightarrow> Inr (join_with (js '','') ss))"
| "js_String r (JObj kvs) =
     (if map_of kvs (js ''toString'') \<noteq> None
      then Inl (TypeError (js ''Cannot convert object to primitive value''))
      else Inr (js ''[object Object]''))"
| "js_elems r [] = Inr []"
| "js_elems r (x # xs) =
     (case (if nullish x then Inr [] else js_String r x) of
        Inl ex \<Rightarrow> Inl ex
      | Inr s \<Rightarrow> (case js_elems r xs of Inl ex \<Rightarrow> Inl ex | Inr ss \<Rightarrow> Inr (s # ss)))"

text \<open>
  The method call \<open>v.toString()\<close>: on null and undefined reading the method throws; on an
  object with an own property \<open>toString\<close> the property is not a function and calling it
  throws; otherwise the result is that of \<open>String(v)\<close>.
\<close>

definition toString_call :: "runtime \<Rightarrow> jv \<Rightarrow> exn + ustring" where
  "toString_call r v =
     (if nullish v then Inl (TypeError (js ''Cannot read properties of null''))
      else case v of
             JObj kvs \<Rightarrow>
               if map_of kvs (js ''toString'') \<noteq> None
               then Inl (TypeError (js ''toString is not a function''))
               else Inr (js ''[object Object]'')
           | _ \<Rightarrow> js_String r v)"

text \<open>\<open>v?.toString()\<close>\<close>

definition opt_toString :: "runtime \<Rightarrow> jv \<Rightarrow> exn + ustring option" where
  "opt_toString r v =
     (if nullish v then Inr None else bnd (toString_call r v) (\<lambda>s. Inr (Some s)))"

text \<open>
  \<open>Number(v)\<close>. For an object the conversion asks \<open>valueOf\<close>, which gives no primitive,
  and then \<open>toString\<close>: an own property of that name makes it throw, and the inherited
  method prints a text that is not a number. An array is read from its printed form.
\<close>

fun js_Number :: "runtime \<Rightarrow> jv \<Rightarrow> exn + number" where
  "js_Number r JUndefined = Inr NaN"
| "js_Number r JNull = Inr (Fin 0)"
| "js_Number r (JBool b) = Inr (if b then Fin 1 else Fin 0)"
| "js_Number r (JNum n) = Inr n"
| "js_Number r (JStr s) = Inr (strToNumber r s)"
| "js_Number r (JArr xs) = bnd (js_String r (JArr xs)) (\<lambda>s. Inr (strToNumber r s))"
| "js_Number r (JObj kvs) =
     (if map_of kvs (js ''toString'') \<noteq> None
      then Inl (TypeError (js ''Cannot convert object to primitive value''))
      else Inr NaN)"

text \<open>
  What a receiver reads from \<open>JSON.stringify(v)\<close>: a number that is not finite is written
  as null, a property whose value is undefined is left out, an undefined element of an
  array is written as null.
\<close>

fun wire :: "jv \<Rightarrow> jv"
and wire_list :: "jv list \<Rightarrow> jv list"
and wire_props :: "(ustring \<times> jv) list \<Rightarrow> (ustring \<times> jv) list" where
  "wire JUndefined = JUndefined"
| "wire JNull = JNull"
| "wire (JBool b) = JBool b"
| "wire (JNum NaN) = JNull"
| "wire (JNum NegInf) = JNull"
| "wire (JNum PosInf) = JNull"
| "wire (JNum (Fin x)) = JNum (Fin x)"
| "wire (JStr s) = JStr s"
| "wire (JArr xs) = JArr (wire_list xs)"
| "wire (JObj kvs) =
     JObj (filter (\<lambda>p. snd p \<noteq> JUndefined) (AList.clearjunk (wire_props kvs)))"
| "wire_list [] = []"
| "wire_list (x # xs) = (if x = JUndefined then JNull else wire x) # wire_list xs"
| "wire_props [] = []"
| "wire_props ((k, v) # kvs) = (k, wire v) # wire_props kvs"

subsection \<open>Strings\<close>

text \<open>
  The code units \<open>String.prototype.trim\<close> strips: tab, line feed, vertical tab, form
  feed, carriage return, space, U+00A0, U+1680, U+2000 to U+200A, U+2028, U+2029,
  U+202F, U+205F, U+3000 and U+FEFF.
\<close>

definition is_ws :: "nat \<Rightarrow> bool" where
  "is_ws c = ((9 \<le> c \<and> c \<le> 13) \<or> c = 32 \<or> c = 160 \<or> c = 5760 \<or> (8192 \<le> c \<and> c \<le> 8202)
              \<or> c = 8232 \<or> c = 8233 \<or> c = 8239 \<or> c = 8287 \<or> c = 12288 \<or> c = 65279)"

definition trim :: "ustring \<Rightarrow> ustring" where
  "trim s = rev (dropWhile is_ws (rev (dropWhile is_ws s)))"

definition startsWith :: "ustring \<Rightarrow> ustring \<Rightarrow> bool" where
  "startsWith s p = (take (length p) s = p)"

definition endsWith :: "ustring \<Rightarrow> ustring \<Rightarrow> bool" where
  "endsWith s p = startsWith (rev s) (rev p)"

fun str_includes :: "ustring \<Rightarrow> ustring \<Rightarrow> bool" where
  "str_includes [] p = (p = [])"
| "str_includes (c # cs) p = (startsWith (c # cs) p \<or> str_includes cs p)"

fun split_on :: "nat \<Rightarrow> ustring \<Rightarrow> ustring list" where
  "split_on d [] = [[]]"
| "split_on d (c # cs) =
     (if c = d then [] # split_on d cs
      else (case split_on d cs of [] \<Rightarrow> [[c]] | p # ps \<Rightarrow> (c # p) # ps))"

text \<open>The decimal digits of an index or a status code; the digit \<open>d\<close> is the code unit
  \<open>48 + d\<close>.\<close>

fun digits :: "nat \<Rightarrow> ustring" where
  "digits n = (if n < 10 then [48 + n] else digits (n div 10) @ [48 + n mod 10])"

declare digits.simps [simp del]

text \<open>
  \<open>{...base, ...ext}\<close>: a property of \<open>ext\<close> replaces the property of \<open>base\<close> with the
  same name, or is added after the others.
\<close>

definition spread :: "(ustring \<times> 'v) list \<Rightarrow> (ustring \<times> 'v) list \<Rightarrow> (ustring \<times> 'v) list" where
  "spread base ext = foldl (\<lambda>acc (k, v). AList.update k v acc) base ext"

section \<open>Requests, responses and the outside world\<close>

text \<open>
  The parts of a request the handlers read. \<open>req_body\<close> is the result of \<open>JSON.parse\<close> on
  the body text, \<open>None\<close> when the text is not JSON (then \<open>req.json()\<close> rejects with a
  SyntaxError). Header names are case-insensitive, so each header read is a field.
\<close>

record request =
  req_method :: ustring
  req_pathname :: ustring
  req_search :: "(ustring \<times> ustring) list"
  req_origin :: "ustring option"
  req_accept :: "ustring option"
  req_content_type :: "ustring option"
  req_authorization :: "ustring option"
  req_body :: "jv option"

text \<open>
  A response body: none, a text, a JSON text (kept as the value a receiver reads from
  it; \<open>JUndefined\<close> where \<open>JSON.stringify\<close> gives no text, and the body is empty), or a
  stream handed through from upstream.
\<close>

datatype payload = NoBody | Text ustring | Json jv | Stream jv

record response =
  status :: nat
  headers :: "(ustring \<times> ustring) list"
  body :: payload

text \<open>What is sent to the retrieval backend through the binding.\<close>

record search_params =
  sp_query :: ustring
  sp_rewrite_query :: bool
  sp_max_num_results :: number
  sp_score_threshold :: number
  sp_stream :: bool

text \<open>A document of a retrieval-only result: file name, score, and the text of each
  content item that has one.\<close>

record doc =
  doc_filename :: ustring
  doc_score :: number
  doc_content :: "ustring option list"

record llm_request =
  llm_apiKey :: "ustring option"
  llm_baseURL :: "ustring option"
  llm_model :: ustring
  llm_system :: ustring
  llm_messages :: "ustring list"

record llm_handle =
  llm_text :: "exn + ustring"
  toAIStreamResponse :: "(ustring \<times> ustring) list \<Rightarrow> response"

text \<open>A response of an upstream REST endpoint to the global \<open>fetch\<close>.\<close>

record upstream =
  up_status :: nat
  up_text :: "exn + ustring"
  up_json :: "exn + jv"
  up_stream :: "jv option"

definition up_ok :: "upstream \<Rightarrow> bool" where
  "up_ok r = (200 \<le> up_status r \<and> up_status r \<le> 299)"

text \<open>The options of a call to the global \<open>fetch\<close>; the body is a JSON text, kept as the
  value a receiver reads from it.\<close>

record fetch_init =
  fi_method :: ustring
  fi_headers :: "(ustring \<times> ustring) list"
  fi_body :: "jv option"

text \<open>Every call a handler makes to a collaborator is recorded, in order.\<close>

datatype call =
    AiSearch ustring search_params
  | Search ustring search_params
  | StreamText llm_request
  | BucketPut ustring jv jv "(ustring \<times> ustring) list"
  | AssetsFetch request
  | Autorag bool "ustring option" jv
  | Fetch ustring fetch_init
  | Render ustring jv jv

text \<open>
  The collaborators: each answers a call with a value or with an exception. \<open>now\<close> is
  \<open>new Date().toISOString()\<close>. \<open>autorag\<close> is the binding as the older worker calls it
  (\<open>True\<close> for \<open>aiSearch\<close>, \<open>False\<close> for \<open>search\<close>, then the instance name and the
  parameters); \<open>http_fetch\<close> is the global \<open>fetch\<close>; \<open>parse_url\<close> is \<open>new URL\<close>, giving the
  host name and the normalised address, or nothing where the constructor throws;
  \<open>browser_render\<close> is the headless browser, from launch to close.
\<close>

record world =
  rt :: runtime
  now :: ustring
  autorag_aiSearch :: "ustring \<Rightarrow> search_params \<Rightarrow> exn + jv"
  autorag_search :: "ustring \<Rightarrow> search_params \<Rightarrow> exn + doc list"
  streamText :: "llm_request \<Rightarrow> exn + llm_handle"
  bucket_put :: "ustring \<Rightarrow> jv \<Rightarrow> jv \<Rightarrow> (ustring \<times> ustring) list \<Rightarrow> exn + unit"
  assets_fetch :: "request \<Rightarrow> exn + response"
  autorag :: "bool \<Rightarrow> ustring option \<Rightarrow> jv \<Rightarrow> exn + jv"
  http_fetch :: "ustring \<Rightarrow> fetch_init \<Rightarrow> exn + upstream"
  parse_url :: "ustring \<Rightarrow> (ustring \<times> ustring) option"
  browser_render :: "ustring \<Rightarrow> jv \<Rightarrow> jv \<Rightarrow> exn + ustring"

text \<open>The run of a handler: the calls it made, and the value it returned or the exception
  that left it.\<close>

type_synonym 'a run = "call list \<times> (exn + 'a)"

section \<open>The worker (src/worker/src/index.ts)\<close>

text \<open>The \<open>AI\<close> binding is required by the \<open>Env\<close> interface and taken as bound.\<close>

record env =
  RAG_ID :: ustring
  DOCS_BUCKET :: bool
  STREAM_DEFAULT :: "ustring option"
  DEFAULT_TOPK :: "ustring option"
  DEFAULT_THRESHOLD :: "ustring option"
  USE_EXTERNAL_LLM :: "ustring option"
  ALLOWED_ORIGINS :: "ustring option"
  OPENAI_API_KEY :: "ustring option"
  AZURE_OPENAI_ENDPOINT :: "ustring option"
  AZURE_OPENAI_API_KEY :: "ustring option"
  AZURE_OPENAI_API_VERSION :: "ustring option"
  INGESTION_TOKEN :: "ustring option"

text \<open>A string-valued setting is truthy when it is set and not empty.\<close>

fun set_str :: "ustring option \<Rightarrow> bool" where
  "set_str None = False"
| "set_str (Some s) = (s \<noteq> [])"

text \<open>\<open>s || d\<close> for a string setting, and \<open>Number(s || d)\<close> with a numeric default.\<close>

fun str_or :: "ustring option \<Rightarrow> ustring option \<Rightarrow> ustring option" where
  "str_or None d = d"
| "str_or (Some s) d = (if s \<noteq> [] then Some s else d)"

fun num_or :: "runtime \<Rightarrow> ustring option \<Rightarrow> number \<Rightarrow> number" where
  "num_or r None d = d"
| "num_or r (Some s) d = (if s \<noteq> [] then strToNumber r s else d)"

text \<open>\<open>a ?? d\<close> for a string setting and a string default.\<close>

fun str_nc :: "ustring option \<Rightarrow> ustring \<Rightarrow> ustring" where
  "str_nc None d = d"
| "str_nc (Some s) d = s"

definition getCorsHeaders :: "ustring option \<Rightarrow> ustring option \<Rightarrow> (ustring \<times> ustring) list" where
  "getCorsHeaders origin allowedOrigins =
    (let allowed = filter (\<lambda>s. s \<noteq> [])
           (map trim (split_on 44 (case allowedOrigins of None \<Rightarrow> js ''*'' | Some a \<Rightarrow> a)));
         allowAll = (js ''*'' \<in> set allowed);
         allowOrigin = (if allowAll then js ''*''
                        else (case origin of None \<Rightarrow> js ''null''
                              | Some og \<Rightarrow> if og \<noteq> [] \<and> og \<in> set allowed then og else js ''null''))
     in [(js ''Access-Control-Allow-Origin'', allowOrigin),
         (js ''Access-Control-Allow-Headers'', js ''Content-Type, Authorization, Accept''),
         (js ''Access-Control-Allow-Methods'', js ''GET, POST, OPTIONS'')])"

definition json :: "jv \<Rightarrow> nat \<Rightarrow> (ustring \<times> ustring) list \<Rightarrow> response" where
  "json v st hs =
     \<lparr>status = st, headers = spread [(js ''Content-Type'', js ''application/json'')] hs,
      body = Json (wire v)\<rparr>"

definition notFound :: "(ustring \<times> ustring) list \<Rightarrow> response" where
  "notFound hs = \<lparr>status = 404, headers = hs, body = Text (js ''Not Found'')\<rparr>"

definition parseBoolean :: "runtime \<Rightarrow> ustring option \<Rightarrow> bool \<Rightarrow> bool" where
  "parseBoolean r s defaultValue =
     (case s of None \<Rightarrow> defaultValue
      | Some t \<Rightarrow> toLowerCase r t \<in> set [js ''1'', js ''true'', js ''yes'', js ''on''])"

record ai_params =
  p_query :: ustring
  p_topK :: "number option"
  p_threshold :: "number option"
  p_stream :: bool
  p_rewrite :: "bool option"

definition clamp_topK :: "number \<Rightarrow> number" where
  "clamp_topK n = Math_min (Math_max n (Fin 1)) (Fin 50)"

definition clamp_threshold :: "number \<Rightarrow> number" where
  "clamp_threshold n = Math_max (Math_min n (Fin 1)) (Fin 0)"

definition aiSearch :: "world \<Rightarrow> env \<Rightarrow> ai_params \<Rightarrow> jv run" where
  "aiSearch w e p =
    (let searchParams =
       \<lparr>sp_query = p_query p,
        sp_rewrite_query = (case p_rewrite p of Some b \<Rightarrow> b | None \<Rightarrow> True),
        sp_max_num_results = clamp_topK
          (case p_topK p of Some n \<Rightarrow> n
           | None \<Rightarrow> num_or (rt w) (DEFAULT_TOPK e) (Fin 6)),
        sp_score_threshold = clamp_threshold
          (case p_threshold p of Some n \<Rightarrow> n
           | None \<Rightarrow> num_or (rt w) (DEFAULT_THRESHOLD e) (Fin (3 / 10))),
        sp_stream = p_stream p\<rparr>
     in ([AiSearch (RAG_ID e) searchParams], autorag_aiSearch w (RAG_ID e) searchParams))"

text \<open>
  The five values \<open>handleAsk\<close> reads from the request (its lines 84 to 106). With a JSON
  content type the body is parsed, a body that is not JSON counting as \<open>{}\<close>; reading
  \<open>body.query\<close> of the body \<open>null\<close> throws, and so does each conversion of lines 95 to 99
  that fails, in the order of the lines. All of this happens before the \<open>try\<close> block.
\<close>

record invocation =
  q_query :: ustring
  q_topK :: number
  q_threshold :: number
  q_stream :: bool
  q_rewrite :: bool

text \<open>The query of a JSON body (line 95) and of the address (line 101).\<close>

definition body_query :: "runtime \<Rightarrow> jv \<Rightarrow> exn + ustring" where
  "body_query r b =
     bnd (toString_call r (js_or (js_get b (js ''query'')) (JStr []))) (\<lambda>s. Inr (trim s))"

definition url_query :: "request \<Rightarrow> ustring" where
  "url_query req =
     trim (str_nc (str_or (map_of (req_search req) (js ''q''))
                     (str_or (map_of (req_search req) (js ''query'')) None)) [])"

definition json_request :: "request \<Rightarrow> bool" where
  "json_request req =
     (req_method req = js ''POST'' \<and>
      (case req_content_type req of None \<Rightarrow> False | Some ct \<Rightarrow> str_includes ct (js ''json'')))"

definition body_invocation :: "world \<Rightarrow> env \<Rightarrow> ustring \<Rightarrow> jv \<Rightarrow> exn + invocation" where
  "body_invocation w e accept b =
     bnd (body_query (rt w) b) (\<lambda>query.
     bnd (js_Number (rt w)
            (nc (js_get b (js ''topK'')) (JStr (str_nc (DEFAULT_TOPK e) (js ''6''))))) (\<lambda>topK.
     bnd (js_Number (rt w)
            (nc (js_get b (js ''threshold''))
               (JStr (str_nc (DEFAULT_THRESHOLD e) (js ''0.30''))))) (\<lambda>threshold.
     bnd (opt_toString (rt w) (js_get b (js ''stream''))) (\<lambda>stream.
     bnd (opt_toString (rt w) (js_get b (js ''rewrite''))) (\<lambda>rewrite.
       Inr \<lparr>q_query = query, q_topK = topK, q_threshold = threshold,
            q_stream = (parseBoolean (rt w) stream False
                        \<or> str_includes accept (js ''text/event-stream'')),
            q_rewrite = parseBoolean (rt w) rewrite True\<rparr>)))))"

definition ask_invocation :: "world \<Rightarrow> env \<Rightarrow> request \<Rightarrow> exn + invocation" where
  "ask_invocation w e req =
    (let accept = str_nc (req_accept req) [] in
     if json_request req then
       (let b = (case req_body req of None \<Rightarrow> JObj [] | Some v \<Rightarrow> v) in
        if nullish b then Inl (TypeError (js ''Cannot read properties of null''))
        else body_invocation w e accept b)
     else
       (let sp = map_of (req_search req) in
        Inr
          \<lparr>q_query = url_query req,
           q_topK = strToNumber (rt w)
             (case sp (js ''topK'') of Some s \<Rightarrow> s | None \<Rightarrow> str_nc (DEFAULT_TOPK e) (js ''6'')),
           q_threshold = strToNumber (rt w)
             (case sp (js ''threshold'') of Some s \<Rightarrow> s
              | None \<Rightarrow> str_nc (DEFAULT_THRESHOLD e) (js ''0.30'')),
           q_stream = (parseBoolean (rt w) (str_or (sp (js ''stream'')) (STREAM_DEFAULT e)) False
                       \<or> str_includes accept (js ''text/event-stream'')),
           q_rewrite = parseBoolean (rt w) (sp (js ''rewrite'')) True\<rparr>))"

definition search_failed :: "exn \<Rightarrow> (ustring \<times> ustring) list \<Rightarrow> response" where
  "search_failed ex corsHeaders =
     json (JObj [(js ''error'', JStr (js ''Search failed'')), (js ''details'', JStr (message ex))])
       500 corsHeaders"

text \<open>The managed mode (lines 114 to 123): retrieval and generation by the backend.\<close>

definition ask_managed ::
  "world \<Rightarrow> env \<Rightarrow> invocation \<Rightarrow> (ustring \<times> ustring) list \<Rightarrow> response run" where
  "ask_managed w e q corsHeaders =
    (case aiSearch w e \<lparr>p_query = q_query q, p_topK = Some (q_topK q),
            p_threshold = Some (q_threshold q), p_stream = q_stream q,
            p_rewrite = Some (q_rewrite q)\<rparr> of
       (calls, Inl ex) \<Rightarrow> (calls, Inr (search_failed ex corsHeaders))
     | (calls, Inr result) \<Rightarrow>
         (calls, Inr (if q_stream q
            then \<lparr>status = 200,
                  headers = spread [(js ''Content-Type'', js ''text/event-stream''),
                                    (js ''Cache-Control'', js ''no-cache'')] corsHeaders,
                  body = Stream result\<rparr>
            else json result 200 corsHeaders)))"

definition doc_json :: "doc \<Rightarrow> jv" where
  "doc_json d =
     JObj [(js ''filename'', JStr (doc_filename d)), (js ''score'', JNum (doc_score d)),
           (js ''content'', JArr (map (\<lambda>c. case c of None \<Rightarrow> JObj []
                                        | Some t \<Rightarrow> JObj [(js ''text'', JStr t)]) (doc_content d)))]"

definition file_chunk :: "doc \<Rightarrow> ustring" where
  "file_chunk item =
     js ''<file name='' @ [34] @ doc_filename item @ [34] @ js ''>'' @ [10]
     @ join_with [10, 10]
         (map (\<lambda>c. case c of None \<Rightarrow> [] | Some t \<Rightarrow> t) (doc_content item))
     @ [10] @ js ''</file>''"

text \<open>In a template string an unset setting prints as \<open>undefined\<close>.\<close>

fun tpl :: "ustring option \<Rightarrow> ustring" where
  "tpl None = js ''undefined''"
| "tpl (Some s) = s"

definition no_relevant :: "ustring \<Rightarrow> jv" where
  "no_relevant query =
     JObj [(js ''text'', JStr (js ''No relevant information found for: '' @ [34] @ query
                            @ [34])),
           (js ''data'', JArr [])]"

text \<open>The external-LLM mode (lines 125 to 166): retrieval by the backend, generation by
  the external model.\<close>

definition ask_external ::
  "world \<Rightarrow> env \<Rightarrow> request \<Rightarrow> invocation \<Rightarrow> (ustring \<times> ustring) list \<Rightarrow> response run" where
  "ask_external w e req q corsHeaders =
    (let sp = \<lparr>sp_query = q_query q, sp_rewrite_query = q_rewrite q,
               sp_max_num_results = q_topK q, sp_score_threshold = q_threshold q,
               sp_stream = False\<rparr>
     in case autorag_search w (RAG_ID e) sp of
          Inl ex \<Rightarrow> ([Search (RAG_ID e) sp], Inr (search_failed ex corsHeaders))
        | Inr data \<Rightarrow>
            if data = [] then
              ([Search (RAG_ID e) sp], Inr (json (no_relevant (q_query q)) 200 corsHeaders))
            else
              (let chunks = join_with [10, 10] (map file_chunk data);
                   lr = \<lparr>llm_apiKey = (if USE_EXTERNAL_LLM e = Some (js ''openai'')
                                        then OPENAI_API_KEY e else AZURE_OPENAI_API_KEY e),
                         llm_baseURL = (if USE_EXTERNAL_LLM e = Some (js ''openai'') then None
                                        else Some (tpl (AZURE_OPENAI_ENDPOINT e) @ js ''?api-version=''
                                                   @ tpl (AZURE_OPENAI_API_VERSION e))),
                         llm_model = js ''gpt-4o-mini'',
                         llm_system = js ''Answer based only on the provided documentation files. Be concise and accurate.'',
                         llm_messages = [chunks, q_query q]\<rparr>;
                   calls = [Search (RAG_ID e) sp, StreamText lr]
               in case streamText w lr of
                    Inl ex \<Rightarrow> (calls, Inr (search_failed ex corsHeaders))
                  | Inr h \<Rightarrow>
                      if str_includes (str_nc (req_accept req) []) (js ''text/event-stream'')
                      then (calls, Inr (toAIStreamResponse h corsHeaders))
                      else (case llm_text h of
                              Inl ex \<Rightarrow> (calls, Inr (search_failed ex corsHeaders))
                            | Inr t \<Rightarrow>
                                (calls, Inr (json (JObj [(js ''text'', JStr t),
                                       (js ''data'', JArr (map doc_json data))]) 200 corsHeaders)))))"

definition handleAsk :: "world \<Rightarrow> env \<Rightarrow> request \<Rightarrow> (ustring \<times> ustring) list \<Rightarrow> response run" where
  "handleAsk w e req corsHeaders =
    (if req_method req \<noteq> js ''POST'' \<and> req_method req \<noteq> js ''GET''
     then ([], Inr \<lparr>status = 405, headers = corsHeaders, body = Text (js ''Method not allowed'')\<rparr>)
     else case ask_invocation w e req of
            Inl ex \<Rightarrow> ([], Inl ex)
          | Inr q \<Rightarrow>
              if q_query q = []
              then ([], Inr (json (JObj [(js ''error'', JStr (js ''Missing 'query' parameter''))])
                                400 corsHeaders))
              else if \<not> set_str (USE_EXTERNAL_LLM e) then ask_managed w e q corsHeaders
              else ask_external w e req q corsHeaders)"

text \<open>\<open>Object.entries\<close>: the properties of an object, the indexed elements of an array or
  of a string, nothing for the other values.\<close>

fun entries :: "jv \<Rightarrow> (ustring \<times> jv) list" where
  "entries (JObj kvs) = AList.clearjunk kvs"
| "entries (JArr xs) = zip (map digits [0..<length xs]) xs"
| "entries (JStr s) = zip (map digits [0..<length s]) (map (\<lambda>c. JStr [c]) s)"
| "entries v = []"

text \<open>
  The body of the \<open>try\<close> block of \<open>handleIngestion\<close>. A \<open>path\<close> that is not a string has no
  \<open>startsWith\<close> method, and calling it throws.
\<close>

definition ingest_key :: "jv \<Rightarrow> exn + ustring" where
  "ingest_key path =
     (case path of
        JStr p \<Rightarrow> Inr (if startsWith p (js ''/'') then drop 1 p else p)
      | _ \<Rightarrow> Inl (TypeError (js ''body.path.startsWith is not a function'')))"

definition ingest_contentType :: "runtime \<Rightarrow> jv \<Rightarrow> ustring \<Rightarrow> jv" where
  "ingest_contentType r b key =
     nc (js_get b (js ''content_type''))
        (JStr (if endsWith (toLowerCase r key) (js ''.html'') then js ''text/html''
               else js ''text/markdown''))"

text \<open>\<open>entries.map(([k, v]) => [k, String(v)])\<close>: the conversions run in the order of the
  entries, and the first one that throws ends the mapping.\<close>

fun stringify_entries :: "runtime \<Rightarrow> (ustring \<times> jv) list \<Rightarrow> exn + (ustring \<times> ustring) list" where
  "stringify_entries r [] = Inr []"
| "stringify_entries r (kv # kvs) =
     bnd (js_String r (snd kv)) (\<lambda>s.
     bnd (stringify_entries r kvs) (\<lambda>rest. Inr ((fst kv, s) # rest)))"

definition customMetadata ::
  "runtime \<Rightarrow> ustring \<Rightarrow> ustring \<Rightarrow> jv \<Rightarrow> exn + (ustring \<times> ustring) list" where
  "customMetadata r src ts b =
     bnd (stringify_entries r (entries (js_or (js_get b (js ''metadata'')) (JObj []))))
       (\<lambda>es. Inr (spread [(js ''source'', src), (js ''timestamp'', ts)] es))"

definition ingestion_failed :: "exn \<Rightarrow> (ustring \<times> ustring) list \<Rightarrow> response" where
  "ingestion_failed ex corsHeaders =
     json (JObj [(js ''error'', JStr (js ''Ingestion failed'')), (js ''details'', JStr (message ex))])
       500 corsHeaders"

definition ingest_store :: "world \<Rightarrow> jv \<Rightarrow> (ustring \<times> ustring) list \<Rightarrow> response run" where
  "ingest_store w b corsHeaders =
    (case ingest_key (js_get b (js ''path'')) of
       Inl ex \<Rightarrow> ([], Inr (ingestion_failed ex corsHeaders))
     | Inr key \<Rightarrow>
        (case customMetadata (rt w) (js ''api-ingestion'') (now w) b of
           Inl ex \<Rightarrow> ([], Inr (ingestion_failed ex corsHeaders))
         | Inr md \<Rightarrow>
            (let c = BucketPut key (js_get b (js ''content'')) (ingest_contentType (rt w) b key) md
             in case bucket_put w key (js_get b (js ''content''))
                       (ingest_contentType (rt w) b key) md of
                  Inl ex \<Rightarrow> ([c], Inr (ingestion_failed ex corsHeaders))
                | Inr u \<Rightarrow>
                    ([c], Inr (json (JObj [(js ''success'', JBool True),
                                           (js ''message'', JStr (js ''Document ingested successfully'')),
                                           (js ''path'', JStr key)]) 200 corsHeaders)))))"

text \<open>What \<open>handleIngestion\<close> does once the method and the token are accepted (from its
  line 186 on).\<close>

definition ingest_body :: "world \<Rightarrow> env \<Rightarrow> request \<Rightarrow> (ustring \<times> ustring) list \<Rightarrow> response run" where
  "ingest_body w e req corsHeaders =
    (case req_body req of
       None \<Rightarrow> ([], Inl (SyntaxError (js ''Unexpected token'')))
     | Some b \<Rightarrow>
         if nullish b then ([], Inl (TypeError (js ''Cannot read properties of null'')))
         else if \<not> truthy (js_get b (js ''path'')) \<or> \<not> truthy (js_get b (js ''content''))
         then ([], Inr (json (JObj [(js ''error'', JStr (js ''Path and content are required''))])
                          400 corsHeaders))
         else if \<not> DOCS_BUCKET e
         then ([], Inr (json (JObj [(js ''error'', JStr (js ''R2 bucket not configured''))])
                          500 corsHeaders))
         else ingest_store w b corsHeaders)"

definition unauthorized :: "(ustring \<times> ustring) list \<Rightarrow> response" where
  "unauthorized hs = \<lparr>status = 401, headers = hs, body = Text (js ''Unauthorized'')\<rparr>"

text \<open>The token check shared by the gated handlers:
  \<open>!authHeader || authHeader !== `Bearer ${token}`\<close>.\<close>

definition auth_rejected :: "ustring \<Rightarrow> ustring option \<Rightarrow> bool" where
  "auth_rejected token authHeader =
     (case authHeader of None \<Rightarrow> True
      | Some h \<Rightarrow> h = [] \<or> h \<noteq> js ''Bearer '' @ token)"

definition handleIngestion ::
  "world \<Rightarrow> env \<Rightarrow> request \<Rightarrow> (ustring \<times> ustring) list \<Rightarrow> response run" where
  "handleIngestion w e req corsHeaders =
    (if req_method req \<noteq> js ''POST''
     then ([], Inr \<lparr>status = 405, headers = corsHeaders, body = Text (js ''Method not allowed'')\<rparr>)
     else if set_str (INGESTION_TOKEN e)
             \<and> auth_rejected (str_nc (INGESTION_TOKEN e) []) (req_authorization req)
     then ([], Inr (unauthorized corsHeaders))
     else ingest_body w e req corsHeaders)"

subsection \<open>The tool-protocol endpoint (class NLWebMcp)\<close>

definition rpc_error ::
  "jv \<Rightarrow> (ustring \<times> ustring) list \<Rightarrow> real \<Rightarrow> ustring \<Rightarrow> jv \<Rightarrow> response" where
  "rpc_error ident corsHeaders code msg data =
     json (JObj [(js ''jsonrpc'', JStr (js ''2.0'')), (js ''id'', ident),
                 (js ''error'', JObj [(js ''code'', JNum (Fin code)), (js ''message'', JStr msg),
                                   (js ''data'', data)])]) 200 corsHeaders"

definition rpc_result :: "jv \<Rightarrow> (ustring \<times> ustring) list \<Rightarrow> jv \<Rightarrow> response" where
  "rpc_result ident corsHeaders result =
     json (JObj [(js ''jsonrpc'', JStr (js ''2.0'')), (js ''id'', ident), (js ''result'', result)])
       200 corsHeaders"

fun exn_name :: "exn \<Rightarrow> ustring" where
  "exn_name (SyntaxError m) = js ''SyntaxError''"
| "exn_name (TypeError m) = js ''TypeError''"
| "exn_name (Error m) = js ''Error''"

text \<open>\<open>e?.message || String(e)\<close>\<close>

definition exn_text :: "exn \<Rightarrow> ustring" where
  "exn_text ex = (if message ex \<noteq> [] then message ex else exn_name ex)"

definition initialize_result :: jv where
  "initialize_result =
     JObj [(js ''protocolVersion'', JStr (js ''2025-06-18'')),
           (js ''serverInfo'', JObj [(js ''name'', JStr (js ''obsidian-docs-autorag'')),
                                  (js ''version'', JStr (js ''2.0.0''))]),
           (js ''capabilities'', JObj [(js ''tools'', JObj [])])]"

definition schema_prop :: "ustring \<Rightarrow> ustring \<Rightarrow> jv" where
  "schema_prop ty descr = JObj [(js ''type'', JStr ty), (js ''description'', JStr descr)]"

definition tools_list_result :: jv where
  "tools_list_result =
     JObj [(js ''tools'', JArr [JObj
       [(js ''name'', JStr (js ''ask'')),
        (js ''description'', JStr (js ''Query Obsidian documentation via AutoRAG'')),
        (js ''inputSchema'', JObj
          [(js ''type'', JStr (js ''object'')),
           (js ''properties'', JObj
             [(js ''query'', schema_prop (js ''string'') (js ''Search query'')),
              (js ''topK'', schema_prop (js ''number'') (js ''Number of results (default: 6)'')),
              (js ''threshold'', schema_prop (js ''number'') (js ''Score threshold 0-1 (default: 0.3)'')),
              (js ''rewrite'', schema_prop (js ''boolean'')
                 (js ''Rewrite query for better results (default: true)''))]),
           (js ''required'', JArr [JStr (js ''query'')])])]])]"

text \<open>The answer of the \<open>catch\<close> block of \<open>NLWebMcp.fetch\<close>.\<close>

definition server_error :: "jv \<Rightarrow> (ustring \<times> ustring) list \<Rightarrow> exn \<Rightarrow> response" where
  "server_error ident corsHeaders ex =
     rpc_error ident corsHeaders (- 32000) (js ''Server error'')
       (JObj [(js ''message'', JStr (exn_text ex))])"

text \<open>The arguments of the tool \<open>ask\<close> (lines 297 to 304), converted in the order of the
  source; \<open>None\<close> stands for the empty query, which ends the case before the numbers are
  read.\<close>

definition tool_params :: "runtime \<Rightarrow> jv \<Rightarrow> exn + ai_params option" where
  "tool_params r args =
     bnd (toString_call r (js_or (opt_get args (js ''query'')) (JStr []))) (\<lambda>query.
       if query = [] then Inr None
       else
         bnd (js_Number r (nc (opt_get args (js ''topK'')) (JNum (Fin 6)))) (\<lambda>topK.
         bnd (js_Number r (nc (opt_get args (js ''threshold'')) (JNum (Fin (3 / 10))))) (\<lambda>threshold.
           Inr (Some \<lparr>p_query = query, p_topK = Some topK, p_threshold = Some threshold,
                      p_stream = False,
                      p_rewrite = Some (truthy (nc (opt_get args (js ''rewrite'')) (JBool True)))\<rparr>))))"

text \<open>The case \<open>tools/call\<close> of the switch, inside the \<open>try\<close> block: whatever is thrown
  there, by a conversion or by the search, is answered by the \<open>catch\<close> block.\<close>

definition tools_call ::
  "world \<Rightarrow> env \<Rightarrow> jv \<Rightarrow> jv \<Rightarrow> (ustring \<times> ustring) list \<Rightarrow> response run" where
  "tools_call w e rpc ident corsHeaders =
    (let params = js_or (js_get rpc (js ''params'')) (JObj []);
         name = js_get params (js ''name'');
         args = js_get params (js ''arguments'')
     in if name \<noteq> JStr (js ''ask'')
        then (case js_String (rt w) name of
                Inl ex \<Rightarrow> ([], Inr (server_error ident corsHeaders ex))
              | Inr s \<Rightarrow>
                  ([], Inr (rpc_error ident corsHeaders (- 32601) (js ''Unknown tool: '' @ s)
                              JUndefined)))
        else
          (case tool_params (rt w) args of
             Inl ex \<Rightarrow> ([], Inr (server_error ident corsHeaders ex))
           | Inr None \<Rightarrow>
               ([], Inr (rpc_error ident corsHeaders (- 32602) (js ''Missing 'query' parameter'')
                           JUndefined))
           | Inr (Some p) \<Rightarrow>
               (case aiSearch w e p of
                  (calls, Inl ex) \<Rightarrow> (calls, Inr (server_error ident corsHeaders ex))
                | (calls, Inr result) \<Rightarrow> (calls, Inr (rpc_result ident corsHeaders result)))))"

definition NLWebMcp_fetch :: "world \<Rightarrow> env \<Rightarrow> request \<Rightarrow> response run" where
  "NLWebMcp_fetch w e req =
    (let corsHeaders = getCorsHeaders (req_origin req) (ALLOWED_ORIGINS e) in
     if req_method req = js ''OPTIONS''
     then ([], Inr \<lparr>status = 204, headers = corsHeaders, body = NoBody\<rparr>)
     else if req_method req \<noteq> js ''POST''
     then ([], Inr \<lparr>status = 405, headers = corsHeaders, body = Text (js ''Method Not Allowed'')\<rparr>)
     else
       (let rpc = (case req_body req of None \<Rightarrow> JObj [] | Some v \<Rightarrow> v) in
        if nullish rpc then ([], Inl (TypeError (js ''Cannot read properties of null'')))
        else
          (let ident = nc (js_get rpc (js ''id'')) JNull in
           if js_get rpc (js ''method'') = JStr (js ''initialize'')
           then ([], Inr (rpc_result ident corsHeaders initialize_result))
           else if js_get rpc (js ''method'') = JStr (js ''tools/list'')
           then ([], Inr (rpc_result ident corsHeaders tools_list_result))
           else if js_get rpc (js ''method'') = JStr (js ''tools/call'')
           then tools_call w e rpc ident corsHeaders
           else (case js_String (rt w) (js_get rpc (js ''method'')) of
                   Inl ex \<Rightarrow> ([], Inr (server_error ident corsHeaders ex))
                 | Inr s \<Rightarrow>
                     ([], Inr (rpc_error ident corsHeaders (- 32601)
                                 (js ''Method not found: '' @ s) JUndefined))))))"

subsection \<open>The entry point\<close>

definition status_json :: "world \<Rightarrow> env \<Rightarrow> jv" where
  "status_json w e =
     JObj [(js ''operational'', JBool True),
           (js ''autorag_name'', JStr (RAG_ID e)),
           (js ''ai_binding_available'', JBool True),
           (js ''ingestion_enabled'', JBool (set_str (INGESTION_TOKEN e))),
           (js ''external_llm'', JStr (str_nc (str_or (USE_EXTERNAL_LLM e) None) (js ''none''))),
           (js ''timestamp'', JStr (now w))]"

definition fetch :: "world \<Rightarrow> env \<Rightarrow> request \<Rightarrow> response run" where
  "fetch w e req =
    (let corsHeaders = getCorsHeaders (req_origin req) (ALLOWED_ORIGINS e) in
     if req_method req = js ''OPTIONS''
     then ([], Inr \<lparr>status = 204, headers = corsHeaders, body = NoBody\<rparr>)
     else if req_pathname req = js ''/ask'' then handleAsk w e req corsHeaders
     else if req_pathname req = js ''/mcp'' then NLWebMcp_fetch w e req
     else if req_pathname req = js ''/api/ingest'' then handleIngestion w e req corsHeaders
     else if req_pathname req = js ''/api/autorag-search'' then handleAsk w e req corsHeaders
     else if req_pathname req = js ''/api/status''
     then ([], Inr (json (status_json w e) 200 corsHeaders))
     else (case assets_fetch w req of
             Inl ex \<Rightarrow> ([AssetsFetch req], Inl ex)
           | Inr assetResponse \<Rightarrow>
               ([AssetsFetch req],
                Inr (if status assetResponse = 404 then notFound corsHeaders
                     else assetResponse))))"

section \<open>The older worker (src/unnamed/part_001)\<close>

text \<open>The \<open>DOCS_BUCKET\<close> binding is required by the \<open>Env\<close> interface and taken as bound; the
  \<open>AI\<close> and browser bindings and the string settings may be missing.\<close>

record legacy_env =
  L_AI :: bool
  L_MY_BROWSER :: bool
  L_ACCOUNT_ID :: "ustring option"
  L_AUTORAG_NAME :: "ustring option"
  L_API_TOKEN :: "ustring option"
  L_INGESTION_TOKEN :: "ustring option"
  L_ALLOWED_ORIGINS :: "ustring option"
  L_ALLOWED_RENDER_HOSTS :: "ustring option"

definition legacy_cors :: "legacy_env \<Rightarrow> request \<Rightarrow> (ustring \<times> ustring) list" where
  "legacy_cors e req =
    (let origin = str_nc (req_origin req) [];
         allowed = filter (\<lambda>s. s \<noteq> [])
           (map trim (split_on 44 (str_nc (str_or (L_ALLOWED_ORIGINS e) None) (js ''*''))));
         allowAll = (js ''*'' \<in> set allowed);
         allowOrigin = (if allowAll then js ''*''
                        else if origin \<in> set allowed then origin else js ''null'')
     in [(js ''Access-Control-Allow-Origin'', allowOrigin),
         (js ''Access-Control-Allow-Methods'', js ''GET, POST, OPTIONS''),
         (js ''Access-Control-Allow-Headers'', js ''Content-Type, Authorization'')])"

text \<open>\<open>new Response(JSON.stringify(v), {status, headers: {...headers, 'Content-Type':
  'application/json'}})\<close>\<close>

definition legacy_json :: "jv \<Rightarrow> nat \<Rightarrow> (ustring \<times> ustring) list \<Rightarrow> response" where
  "legacy_json v st hs =
     \<lparr>status = st, headers = spread hs [(js ''Content-Type'', js ''application/json'')],
      body = Json (wire v)\<rparr>"

definition method_not_allowed :: "(ustring \<times> ustring) list \<Rightarrow> response" where
  "method_not_allowed hs = \<lparr>status = 405, headers = hs, body = Text (js ''Method not allowed'')\<rparr>"

text \<open>\<open>...(v && {k: v})\<close>: the property is there when the value is truthy.\<close>

definition when_truthy :: "ustring \<Rightarrow> jv \<Rightarrow> (ustring \<times> jv) list" where
  "when_truthy k v = (if truthy v then [(k, v)] else [])"

definition rest_base :: "legacy_env \<Rightarrow> ustring" where
  "rest_base e = js ''https://api.cloudflare.com/client/v4/accounts/'' @ tpl (L_ACCOUNT_ID e)
                 @ js ''/autorag/rags/'' @ tpl (L_AUTORAG_NAME e)"

definition bearer_headers :: "legacy_env \<Rightarrow> (ustring \<times> ustring) list" where
  "bearer_headers e = [(js ''Authorization'', js ''Bearer '' @ tpl (L_API_TOKEN e))]"

definition legacy_search_failed :: "exn \<Rightarrow> (ustring \<times> ustring) list \<Rightarrow> response" where
  "legacy_search_failed ex hs =
     legacy_json (JObj [(js ''error'', JStr (js ''Search failed'')), (js ''details'', JStr (message ex))])
       500 hs"

text \<open>The branch of \<open>handleSearch\<close> that uses the binding (its lines 110 to 128).\<close>

definition binding_params :: "jv \<Rightarrow> jv" where
  "binding_params b =
     JObj (spread
       [(js ''query'', js_get b (js ''query'')),
        (js ''max_num_results'', js_or (js_get b (js ''max_num_results'')) (JNum (Fin 5))),
        (js ''rewrite_query'', JBool (js_get b (js ''rewrite_query'') \<noteq> JBool False)),
        (js ''ranking_options'', js_or (js_get b (js ''ranking_options''))
                                (JObj [(js ''score_threshold'', JNum (Fin (3 / 10)))]))]
       (when_truthy (js ''model'') (js_get b (js ''model'')) @ when_truthy (js ''filters'') (js_get b (js ''filters''))
        @ when_truthy (js ''stream'') (js_get b (js ''stream''))))"

definition search_binding ::
  "world \<Rightarrow> legacy_env \<Rightarrow> jv \<Rightarrow> (ustring \<times> ustring) list \<Rightarrow> response run" where
  "search_binding w e b hs =
    (let useAiSearch = (js_get b (js ''use_ai_search'') \<noteq> JBool False);
         c = Autorag useAiSearch (L_AUTORAG_NAME e) (binding_params b)
     in case autorag w useAiSearch (L_AUTORAG_NAME e) (binding_params b) of
          Inl ex \<Rightarrow> ([c], Inr (legacy_search_failed ex hs))
        | Inr result \<Rightarrow> ([c], Inr (legacy_json result 200 hs)))"

text \<open>The REST fallback (lines 130 to 174).\<close>

definition rest_params :: "jv \<Rightarrow> jv" where
  "rest_params b =
     JObj (spread [(js ''query'', js_get b (js ''query''))]
       (when_truthy (js ''max_num_results'') (js_get b (js ''max_num_results''))
        @ (if js_get b (js ''rewrite_query'') \<noteq> JUndefined
           then [(js ''rewrite_query'', js_get b (js ''rewrite_query''))] else [])
        @ when_truthy (js ''model'') (js_get b (js ''model''))
        @ when_truthy (js ''ranking_options'') (js_get b (js ''ranking_options''))
        @ when_truthy (js ''filters'') (js_get b (js ''filters''))
        @ when_truthy (js ''stream'') (js_get b (js ''stream''))))"

definition rest_answer :: "jv \<Rightarrow> upstream \<Rightarrow> exn + payload" where
  "rest_answer b apiResponse =
    (if \<not> up_ok apiResponse then
       (case up_text apiResponse of
          Inl ex \<Rightarrow> Inl ex
        | Inr t \<Rightarrow> Inl (Error (js ''API error: '' @ digits (up_status apiResponse) @ js '' - '' @ t)))
     else case (if truthy (js_get b (js ''stream'')) then up_stream apiResponse else None) of
            Some st \<Rightarrow> Inr (Stream st)
          | None \<Rightarrow>
             (case up_json apiResponse of
                Inl ex \<Rightarrow> Inl ex
              | Inr result \<Rightarrow>
                  if nullish result then Inl (TypeError (js ''Cannot read properties of null''))
                  else Inr (Json (wire (if truthy (js_get result (js ''success''))
                                           \<and> truthy (js_get result (js ''result''))
                                        then js_get result (js ''result'') else result)))))"

definition search_rest ::
  "world \<Rightarrow> legacy_env \<Rightarrow> jv \<Rightarrow> (ustring \<times> ustring) list \<Rightarrow> response run" where
  "search_rest w e b hs =
    (let useAiSearch = (js_get b (js ''use_ai_search'') \<noteq> JBool False);
         apiUrl = rest_base e @ js ''/'' @ (if useAiSearch then js ''ai-search'' else js ''search'');
         init = \<lparr>fi_method = js ''POST'',
                 fi_headers = (js ''Content-Type'', js ''application/json'') # bearer_headers e,
                 fi_body = Some (wire (rest_params b))\<rparr>
     in case http_fetch w apiUrl init of
          Inl ex \<Rightarrow> ([Fetch apiUrl init], Inr (legacy_search_failed ex hs))
        | Inr apiResponse \<Rightarrow>
            (case rest_answer b apiResponse of
               Inl ex \<Rightarrow> ([Fetch apiUrl init], Inr (legacy_search_failed ex hs))
             | Inr (Stream st) \<Rightarrow>
                 ([Fetch apiUrl init],
                  Inr \<lparr>status = 200,
                       headers = spread hs [(js ''Content-Type'', js ''text/event-stream''),
                                            (js ''Cache-Control'', js ''no-cache'')],
                       body = Stream st\<rparr>)
             | Inr pl \<Rightarrow>
                 ([Fetch apiUrl init],
                  Inr \<lparr>status = 200,
                       headers = spread hs [(js ''Content-Type'', js ''application/json'')],
                       body = pl\<rparr>)))"

definition handleSearch ::
  "world \<Rightarrow> legacy_env \<Rightarrow> request \<Rightarrow> (ustring \<times> ustring) list \<Rightarrow> response run" where
  "handleSearch w e req hs =
    (if req_method req \<noteq> js ''POST'' then ([], Inr (method_not_allowed hs))
     else case req_body req of
            None \<Rightarrow> ([], Inl (SyntaxError (js ''Unexpected token'')))
          | Some b \<Rightarrow>
              if nullish b then ([], Inl (TypeError (js ''Cannot read properties of null'')))
              else if \<not> truthy (js_get b (js ''query''))
              then ([], Inr (legacy_json (JObj [(js ''error'', JStr (js ''Query is required''))]) 400 hs))
              else if L_AI e then search_binding w e b hs
              else search_rest w e b hs)"

subsection \<open>The sync trigger\<close>

text \<open>
  \<open>triggerAutoRAGSync\<close> returns one of three shapes: \<open>{skipped: true, reason}\<close>,
  \<open>{error: true, message}\<close>, and the JSON body of the upstream answer.
\<close>

definition sync_url :: "legacy_env \<Rightarrow> ustring" where
  "sync_url e = rest_base e @ js ''/sync''"

definition sync_init :: "legacy_env \<Rightarrow> fetch_init" where
  "sync_init e =
     \<lparr>fi_method = js ''POST'',
      fi_headers = bearer_headers e @ [(js ''Content-Type'', js ''application/json'')],
      fi_body = None\<rparr>"

text \<open>The \<open>try\<close> block of \<open>triggerAutoRAGSync\<close>: what it returns, or what it throws.\<close>

definition sync_try :: "world \<Rightarrow> legacy_env \<Rightarrow> exn + jv" where
  "sync_try w e =
    (case http_fetch w (sync_url e) (sync_init e) of
       Inl ex \<Rightarrow> Inl ex
     | Inr r \<Rightarrow>
         if \<not> up_ok r then
           (if up_status r = 429 \<or> up_status r = 409
            then Inr (JObj [(js ''skipped'', JBool True),
                            (js ''reason'',
                             JStr (js ''Sync is on cooldown (3-minute minimum between syncs)''))])
            else (case up_text r of
                    Inl ex \<Rightarrow> Inl ex
                  | Inr t \<Rightarrow> Inl (Error (js ''Sync API error: '' @ digits (up_status r)
                                          @ js '' - '' @ t))))
         else up_json r)"

definition sync_configured :: "legacy_env \<Rightarrow> bool" where
  "sync_configured e =
     (set_str (L_ACCOUNT_ID e) \<and> set_str (L_API_TOKEN e) \<and> set_str (L_AUTORAG_NAME e))"

definition triggerAutoRAGSync :: "world \<Rightarrow> legacy_env \<Rightarrow> jv run" where
  "triggerAutoRAGSync w e =
    (if \<not> sync_configured e
     then ([], Inr (JObj [(js ''skipped'', JBool True),
                          (js ''reason'', JStr (js ''Not configured''))]))
     else ([Fetch (sync_url e) (sync_init e)],
           (case sync_try w e of
              Inl ex \<Rightarrow> Inr (JObj [(js ''error'', JBool True),
                                      (js ''message'', JStr (message ex))])
            | Inr v \<Rightarrow> Inr v)))"

subsection \<open>Ingestion and manual sync\<close>

definition legacy_ingestion_failed :: "exn \<Rightarrow> (ustring \<times> ustring) list \<Rightarrow> response" where
  "legacy_ingestion_failed ex hs =
     legacy_json (JObj [(js ''error'', JStr (js ''Ingestion failed'')), (js ''details'', JStr (message ex))])
       500 hs"

text \<open>The \<open>try\<close> block of the older \<open>handleIngestion\<close> (its lines 214 to 252).\<close>

definition legacy_ingest_store ::
  "world \<Rightarrow> legacy_env \<Rightarrow> jv \<Rightarrow> (ustring \<times> ustring) list \<Rightarrow> response run" where
  "legacy_ingest_store w e b hs =
    (case ingest_key (js_get b (js ''path'')) of
       Inl ex \<Rightarrow> ([], Inr (legacy_ingestion_failed ex hs))
     | Inr key \<Rightarrow>
        (case customMetadata (rt w) (js ''continuous-ingestion'') (now w) b of
           Inl ex \<Rightarrow> ([], Inr (legacy_ingestion_failed ex hs))
         | Inr md \<Rightarrow>
            (let c = BucketPut key (js_get b (js ''content'')) (ingest_contentType (rt w) b key) md
             in case bucket_put w key (js_get b (js ''content''))
                       (ingest_contentType (rt w) b key) md of
                  Inl ex \<Rightarrow> ([c], Inr (legacy_ingestion_failed ex hs))
                | Inr u \<Rightarrow>
                    (case triggerAutoRAGSync w e of
                       (calls, Inl ex) \<Rightarrow> (c # calls, Inr (legacy_ingestion_failed ex hs))
                     | (calls, Inr syncResponse) \<Rightarrow>
                         (c # calls,
                          Inr (legacy_json
                                 (JObj [(js ''success'', JBool True),
                                        (js ''message'', JStr (js ''Document ingested successfully'')),
                                        (js ''path'', JStr key),
                                        (js ''sync'', syncResponse)]) 200 hs))))))"

definition legacy_ingest_body ::
  "world \<Rightarrow> legacy_env \<Rightarrow> request \<Rightarrow> (ustring \<times> ustring) list \<Rightarrow> response run" where
  "legacy_ingest_body w e req hs =
    (case req_body req of
       None \<Rightarrow> ([], Inl (SyntaxError (js ''Unexpected token'')))
     | Some b \<Rightarrow>
         if nullish b then ([], Inl (TypeError (js ''Cannot read properties of null'')))
         else if \<not> truthy (js_get b (js ''path'')) \<or> \<not> truthy (js_get b (js ''content''))
         then ([], Inr (legacy_json (JObj [(js ''error'', JStr (js ''Path and content are required''))])
                          400 hs))
         else legacy_ingest_store w e b hs)"

definition legacy_handleIngestion ::
  "world \<Rightarrow> legacy_env \<Rightarrow> request \<Rightarrow> (ustring \<times> ustring) list \<Rightarrow> response run" where
  "legacy_handleIngestion w e req hs =
    (if req_method req \<noteq> js ''POST'' then ([], Inr (method_not_allowed hs))
     else if set_str (L_INGESTION_TOKEN e)
             \<and> auth_rejected (str_nc (L_INGESTION_TOKEN e) []) (req_authorization req)
     then ([], Inr (unauthorized hs))
     else legacy_ingest_body w e req hs)"

definition sync_body :: "world \<Rightarrow> legacy_env \<Rightarrow> (ustring \<times> ustring) list \<Rightarrow> response run" where
  "sync_body w e hs =
    (case triggerAutoRAGSync w e of
       (calls, Inl ex) \<Rightarrow>
         (calls, Inr (legacy_json (JObj [(js ''error'', JStr (js ''Sync failed'')),
                                         (js ''details'', JStr (message ex))]) 500 hs))
     | (calls, Inr syncResponse) \<Rightarrow>
         (calls, Inr (legacy_json (JObj [(js ''success'', JBool True),
                                         (js ''message'', JStr (js ''Sync triggered successfully'')),
                                         (js ''response'', syncResponse)]) 200 hs)))"

definition handleSync ::
  "world \<Rightarrow> legacy_env \<Rightarrow> request \<Rightarrow> (ustring \<times> ustring) list \<Rightarrow> response run" where
  "handleSync w e req hs =
    (if req_method req \<noteq> js ''POST'' then ([], Inr (method_not_allowed hs))
     else if set_str (L_INGESTION_TOKEN e)
             \<and> auth_rejected (str_nc (L_INGESTION_TOKEN e) []) (req_authorization req)
     then ([], Inr (unauthorized hs))
     else sync_body w e hs)"

subsection \<open>Status and render-ingest\<close>

definition status_details :: "world \<Rightarrow> legacy_env \<Rightarrow> (ustring \<times> jv) list" where
  "status_details w e =
    (case http_fetch w (rest_base e)
            \<lparr>fi_method = js ''GET'', fi_headers = bearer_headers e, fi_body = None\<rparr> of
       Inl ex \<Rightarrow> []
     | Inr r \<Rightarrow>
         if up_ok r then
           (case up_json r of
              Inl ex \<Rightarrow> []
            | Inr data \<Rightarrow> if nullish data then [] else [(js ''autorag_details'', js_get data (js ''result''))])
         else [])"

definition handleStatus :: "world \<Rightarrow> legacy_env \<Rightarrow> (ustring \<times> ustring) list \<Rightarrow> response run" where
  "handleStatus w e hs =
    (let st = [(js ''autorag_name'', (case L_AUTORAG_NAME e of None \<Rightarrow> JUndefined | Some n \<Rightarrow> JStr n)),
               (js ''operational'', JBool True),
               (js ''last_check'', JStr (now w)),
               (js ''api_configured'', JBool (set_str (L_API_TOKEN e))),
               (js ''ai_binding_available'', JBool (L_AI e)),
               (js ''ingestion_enabled'', JBool (set_str (L_INGESTION_TOKEN e)))]
     in if set_str (L_API_TOKEN e) \<and> set_str (L_ACCOUNT_ID e)
        then ([Fetch (rest_base e)
                 \<lparr>fi_method = js ''GET'', fi_headers = bearer_headers e, fi_body = None\<rparr>],
              Inr (legacy_json (JObj (spread st (status_details w e))) 200 hs))
        else ([], Inr (legacy_json (JObj st) 200 hs)))"

definition host_char :: "nat \<Rightarrow> bool" where
  "host_char n = ((97 \<le> n \<and> n \<le> 122) \<or> (65 \<le> n \<and> n \<le> 90) \<or> (48 \<le> n \<and> n \<le> 57)
                  \<or> n = 46 \<or> n = 45)"

definition strip_slashes :: "ustring \<Rightarrow> ustring" where
  "strip_slashes p = rev (dropWhile (\<lambda>c. c = 47) (rev (dropWhile (\<lambda>c. c = 47) p)))"

definition render_key :: "jv \<Rightarrow> ustring \<Rightarrow> ustring \<Rightarrow> exn + ustring" where
  "render_key keyPrefix hostname time =
    (let safeHost = map (\<lambda>c. if host_char c then c else 95) hostname;
         t = map (\<lambda>c. if c = 58 \<or> c = 46 then 45 else c) time
     in if \<not> truthy keyPrefix then Inr (safeHost @ js ''_'' @ t @ js ''.html'')
        else (case keyPrefix of
                JStr p \<Rightarrow> Inr (strip_slashes p @ js ''/'' @ safeHost @ js ''_'' @ t @ js ''.html'')
              | _ \<Rightarrow> Inl (TypeError (js ''body.keyPrefix.replace is not a function''))))"

definition render_failed :: "exn \<Rightarrow> (ustring \<times> ustring) list \<Rightarrow> response" where
  "render_failed ex hs =
     legacy_json (JObj [(js ''error'', JStr (js ''Render-ingest failed'')),
                        (js ''details'', JStr (exn_text ex))]) 500 hs"

text \<open>The \<open>try\<close> block of \<open>handleRenderAndIngest\<close>; the two readings of the clock are taken
  as the same instant.\<close>

definition render_store ::
  "world \<Rightarrow> legacy_env \<Rightarrow> jv \<Rightarrow> ustring \<Rightarrow> ustring \<Rightarrow> (ustring \<times> ustring) list \<Rightarrow> response run" where
  "render_store w e b hostname href hs =
    (let waitUntil = js_or (js_get b (js ''waitUntil'')) (JStr (js ''networkidle''));
         timeout = nc (js_get b (js ''timeoutMs'')) (JNum (Fin 20000));
         c1 = Render href waitUntil timeout
     in case browser_render w href waitUntil timeout of
          Inl ex \<Rightarrow> ([c1], Inr (render_failed ex hs))
        | Inr html \<Rightarrow>
            (case render_key (js_get b (js ''keyPrefix'')) hostname (now w) of
               Inl ex \<Rightarrow> ([c1], Inr (render_failed ex hs))
             | Inr key \<Rightarrow>
                 (let md = [(js ''source'', js ''browser-render''), (js ''url'', href),
                            (js ''timestamp'', now w)];
                      c2 = BucketPut key (JStr html) (JStr (js ''text/html'')) md
                  in case bucket_put w key (JStr html) (JStr (js ''text/html'')) md of
                       Inl ex \<Rightarrow> ([c1, c2], Inr (render_failed ex hs))
                     | Inr u \<Rightarrow>
                         (case triggerAutoRAGSync w e of
                            (calls, Inl ex) \<Rightarrow> (c1 # c2 # calls, Inr (render_failed ex hs))
                          | (calls, Inr sync) \<Rightarrow>
                              (c1 # c2 # calls,
                               Inr (legacy_json (JObj [(js ''success'', JBool True),
                                                       (js ''key'', JStr key),
                                                       (js ''sync'', sync)]) 200 hs))))))"

definition render_body ::
  "world \<Rightarrow> legacy_env \<Rightarrow> request \<Rightarrow> (ustring \<times> ustring) list \<Rightarrow> response run" where
  "render_body w e req hs =
    (if \<not> L_MY_BROWSER e
     then ([], Inr (legacy_json (JObj [(js ''error'', JStr (js ''Browser binding not configured''))])
                      500 hs))
     else case req_body req of
            None \<Rightarrow> ([], Inr \<lparr>status = 400, headers = hs, body = Text (js ''Invalid JSON'')\<rparr>)
          | Some b \<Rightarrow>
              if \<not> truthy (opt_get b (js ''url''))
              then ([], Inr \<lparr>status = 400, headers = hs, body = Text (js ''Missing url'')\<rparr>)
              else
                (let allowList = filter (\<lambda>s. s \<noteq> [])
                       (map trim (split_on 44 (str_nc (L_ALLOWED_RENDER_HOSTS e) [])))
                 in case bnd (js_String (rt w) (js_get b (js ''url'')))
                           (\<lambda>s. case parse_url w s of
                                  None \<Rightarrow> Inl (TypeError (js ''Invalid URL''))
                                | Some target \<Rightarrow> Inr target) of
                      Inl ex \<Rightarrow>
                        ([], Inr \<lparr>status = 400, headers = hs, body = Text (js ''Invalid url'')\<rparr>)
                    | Inr (hostname, href) \<Rightarrow>
                        if allowList \<noteq> [] \<and> hostname \<notin> set allowList
                        then ([], Inr \<lparr>status = 403, headers = hs,
                                        body = Text (js ''Host not allowed'')\<rparr>)
                        else render_store w e b hostname href hs))"

definition handleRenderAndIngest ::
  "world \<Rightarrow> legacy_env \<Rightarrow> request \<Rightarrow> (ustring \<times> ustring) list \<Rightarrow> response run" where
  "handleRenderAndIngest w e req hs =
    (if req_method req \<noteq> js ''POST'' then ([], Inr (method_not_allowed hs))
     else if set_str (L_INGESTION_TOKEN e)
             \<and> auth_rejected (str_nc (L_INGESTION_TOKEN e) []) (req_authorization req)
     then ([], Inr (unauthorized hs))
     else render_body w e req hs)"

subsection \<open>The entry point of the older worker\<close>

text \<open>
  The switch of the older \<open>fetch\<close> sits in a \<open>try\<close> block whose \<open>catch\<close> answers with
  \<open>{error: 'Internal Server Error'}\<close> and status 500. Each case returns the promise of an
  \<open>async\<close> handler without awaiting it, so the block is left before the promise settles:
  an exception that leaves a handler rejects the returned promise and is not caught
  there. No statement of the block throws by itself, hence the \<open>catch\<close> is never entered.
\<close>

definition legacy_fetch :: "world \<Rightarrow> legacy_env \<Rightarrow> request \<Rightarrow> response run" where
  "legacy_fetch w e req =
    (let corsHeaders = legacy_cors e req in
     if req_method req = js ''OPTIONS''
     then ([], Inr \<lparr>status = 200, headers = corsHeaders, body = NoBody\<rparr>)
     else if req_pathname req = js ''/api/autorag-search'' then handleSearch w e req corsHeaders
     else if req_pathname req = js ''/api/ingest'' then legacy_handleIngestion w e req corsHeaders
     else if req_pathname req = js ''/api/render-ingest''
     then handleRenderAndIngest w e req corsHeaders
     else if req_pathname req = js ''/api/sync'' then handleSync w e req corsHeaders
     else if req_pathname req = js ''/api/status'' then handleStatus w e corsHeaders
     else ([], Inr \<lparr>status = 404, headers = corsHeaders, body = Text (js ''Not Found'')\<rparr>))"

section \<open>Example inputs\<close>

text \<open>A runtime, a world whose collaborators all answer, and the settings of the two
  workers, for evaluating the handlers on concrete requests. Of the runtime's
  conversions only the two default settings and two small numbers are filled in, and
  lower-casing covers the letters A to Z; the requests below carry their numbers as JSON
  numbers and their texts as strings.\<close>

definition ex_rt :: runtime where
  "ex_rt =
     \<lparr>numToString = (\<lambda>n. if n = Fin 6 then js ''6'' else if n = Fin 7 then js ''7'' else js ''NaN''),
      strToNumber = (\<lambda>s. if s = js ''6'' then Fin 6 else if s = js ''0.30'' then Fin (3 / 10)
                         else NaN),
      toLowerCase = map (\<lambda>c. if 65 \<le> c \<and> c \<le> 90 then c + 32 else c)\<rparr>"

definition ex_world :: world where
  "ex_world =
     \<lparr>rt = ex_rt,
      now = js ''2025-01-01T00:00:00.000Z'',
      autorag_aiSearch = (\<lambda>r p. Inr (JObj [(js ''response'', JStr (js ''answer''))])),
      autorag_search = (\<lambda>r p. Inr []),
      streamText = (\<lambda>lr. Inl (Error (js ''no model''))),
      bucket_put = (\<lambda>k c t m. Inr ()),
      assets_fetch = (\<lambda>r. Inr \<lparr>status = 404, headers = [], body = NoBody\<rparr>),
      autorag = (\<lambda>a n p. Inr (JObj [(js ''response'', JStr (js ''answer''))])),
      http_fetch = (\<lambda>u i. Inr \<lparr>up_status = 429, up_text = Inr (js ''cooldown''),
                                 up_json = Inl (SyntaxError (js ''Unexpected token'')),
                                 up_stream = None\<rparr>),
      parse_url = (\<lambda>s. None),
      browser_render = (\<lambda>h u t. Inl (Error (js ''no browser'')))\<rparr>"

definition ex_env :: env where
  "ex_env =
     \<lparr>RAG_ID = js ''docs'', DOCS_BUCKET = True, STREAM_DEFAULT = None, DEFAULT_TOPK = None,
      DEFAULT_THRESHOLD = None, USE_EXTERNAL_LLM = None, ALLOWED_ORIGINS = None,
      OPENAI_API_KEY = None, AZURE_OPENAI_ENDPOINT = None, AZURE_OPENAI_API_KEY = None,
      AZURE_OPENAI_API_VERSION = None, INGESTION_TOKEN = None\<rparr>"

definition ex_legacy_env :: legacy_env where
  "ex_legacy_env =
     \<lparr>L_AI = True, L_MY_BROWSER = False, L_ACCOUNT_ID = Some (js ''acct''),
      L_AUTORAG_NAME = Some (js ''docs''), L_API_TOKEN = Some (js ''key''), L_INGESTION_TOKEN = None,
      L_ALLOWED_ORIGINS = None, L_ALLOWED_RENDER_HOSTS = None\<rparr>"

definition post_json :: "ustring \<Rightarrow> jv option \<Rightarrow> request" where
  "post_json path b =
     \<lparr>req_method = js ''POST'', req_pathname = path, req_search = [], req_origin = None,
      req_accept = None, req_content_type = Some (js ''application/json''),
      req_authorization = None, req_body = b\<rparr>"

text \<open>\<open>POST /ask\<close> with \<open>{"query": "plugins", "topK": 999, "threshold": 2}\<close>, and what the
  worker then sends to the backend.\<close>

definition ask_999 :: request where
  "ask_999 = post_json (js ''/ask'')
     (Some (JObj [(js ''query'', JStr (js ''plugins'')), (js ''topK'', JNum (Fin 999)),
                  (js ''threshold'', JNum (Fin 2))]))"

definition sent_999 :: search_params where
  "sent_999 = \<lparr>sp_query = js ''plugins'', sp_rewrite_query = True, sp_max_num_results = Fin 50,
               sp_score_threshold = Fin 1, sp_stream = False\<rparr>"

text \<open>\<open>POST /api/autorag-search\<close> with \<open>{"query": "plugins", "max_num_results": 999,
  "ranking_options": {"score_threshold": 2}}\<close>.\<close>

definition search_999 :: request where
  "search_999 = post_json (js ''/api/autorag-search'')
     (Some (JObj [(js ''query'', JStr (js ''plugins'')), (js ''max_num_results'', JNum (Fin 999)),
                  (js ''ranking_options'', JObj [(js ''score_threshold'', JNum (Fin 2))])]))"

text \<open>\<open>POST /api/ingest\<close> with a note, with a note that brings its own \<open>source\<close> and
  \<open>timestamp\<close>, and with a body that is not JSON.\<close>

definition ingest_note :: request where
  "ingest_note = post_json (js ''/api/ingest'')
     (Some (JObj [(js ''path'', JStr (js ''/notes/a.md'')), (js ''content'', JStr (js ''# A''))]))"

definition ingest_own :: request where
  "ingest_own = post_json (js ''/api/ingest'')
     (Some (JObj [(js ''path'', JStr (js ''/notes/a.md'')), (js ''content'', JStr (js ''# A'')),
                  (js ''metadata'', JObj [(js ''source'', JStr (js ''mine'')),
                                       (js ''timestamp'', JStr (js ''yesterday''))])]))"

definition ingest_malformed :: request where
  "ingest_malformed = post_json (js ''/api/ingest'') None"

text \<open>A note whose metadata hold an object with a property named \<open>toString\<close>:
  \<open>{"k": {"toString": null}}\<close>.\<close>

definition ingest_unprintable :: request where
  "ingest_unprintable = post_json (js ''/api/ingest'')
     (Some (JObj [(js ''path'', JStr (js ''/notes/a.md'')), (js ''content'', JStr (js ''# A'')),
                  (js ''metadata'', JObj [(js ''k'', JObj [(js ''toString'', JNull)])])]))"

text \<open>Search requests whose query is three spaces, a no-break space (U+00A0) and a
  space, or empty; and one whose query is three spaces and whose \<open>stream\<close> is
  \<open>{"toString": null}\<close>.\<close>

definition ask_nbsp :: request where
  "ask_nbsp = post_json (js ''/ask'') (Some (JObj [(js ''query'', JStr [160, 32])]))"

definition ask_blank_unprintable :: request where
  "ask_blank_unprintable = post_json (js ''/ask'')
     (Some (JObj [(js ''query'', JStr (js ''   '')),
                  (js ''stream'', JObj [(js ''toString'', JNull)])]))"

definition ask_blank :: request where
  "ask_blank = post_json (js ''/ask'')
     (Some (JObj [(js ''query'', JStr (js ''   '')), (js ''topK'', JNum (Fin 3))]))"

definition search_blank :: request where
  "search_blank = post_json (js ''/api/autorag-search'') (Some (JObj [(js ''query'', JStr (js ''   ''))]))"

definition search_empty :: request where
  "search_empty = post_json (js ''/api/autorag-search'') (Some (JObj [(js ''query'', JStr [])]))"

text \<open>Worlds in which the re-index endpoint answers 500, or cannot be reached.\<close>

definition ex_world_500 :: world where
  "ex_world_500 =
     ex_world\<lparr>http_fetch := (\<lambda>u i. Inr \<lparr>up_status = 500, up_text = Inr (js ''index busy''),
                                         up_json = Inl (SyntaxError (js ''Unexpected token'')),
                                         up_stream = None\<rparr>)\<rparr>"

definition ex_world_down :: world where
  "ex_world_down = ex_world\<lparr>http_fetch := (\<lambda>u i. Inl (Error (js ''network down'')))\<rparr>"

definition ex_upstream_429 :: upstream where
  "ex_upstream_429 = \<lparr>up_status = 429, up_text = Inr (js ''cooldown''),
                      up_json = Inl (SyntaxError (js ''Unexpected token'')), up_stream = None\<rparr>"

definition ex_upstream_500 :: upstream where
  "ex_upstream_500 = \<lparr>up_status = 500, up_text = Inr (js ''index busy''),
                      up_json = Inl (SyntaxError (js ''Unexpected token'')), up_stream = None\<rparr>"

text \<open>A world whose backend throws, and calls of the tool \<open>ask\<close> and of an unknown tool.\<close>

definition ex_world_ai_down :: world where
  "ex_world_ai_down = ex_world\<lparr>autorag_aiSearch := (\<lambda>r p. Inl (Error (js ''backend unavailable'')))\<rparr>"

definition rpc_call :: "jv \<Rightarrow> jv" where
  "rpc_call params =
     JObj [(js ''jsonrpc'', JStr (js ''2.0'')), (js ''id'', JNum (Fin 7)), (js ''method'', JStr (js ''tools/call'')),
           (js ''params'', params)]"

definition rpc_unknown_tool :: jv where
  "rpc_unknown_tool = rpc_call (JObj [(js ''name'', JStr (js ''delete'')), (js ''arguments'', JObj [])])"

definition rpc_no_query :: jv where
  "rpc_no_query = rpc_call (JObj [(js ''name'', JStr (js ''ask'')), (js ''arguments'', JObj [])])"

definition rpc_ask :: jv where
  "rpc_ask = rpc_call (JObj [(js ''name'', JStr (js ''ask'')),
                             (js ''arguments'', JObj [(js ''query'', JStr (js ''plugins''))])])"

definition sent_ask :: search_params where
  "sent_ask = \<lparr>sp_query = js ''plugins'', sp_rewrite_query = True, sp_max_num_results = Fin 6,
               sp_score_threshold = Fin (3 / 10), sp_stream = False\<rparr>"

text \<open>A call whose tool name is \<open>{"toString": null}\<close>, and a call of an unknown tool
  whose id is \<open>1e999\<close>, which \<open>JSON.parse\<close> reads as Infinity.\<close>

definition rpc_unprintable_tool :: jv where
  "rpc_unprintable_tool = rpc_call (JObj [(js ''name'', JObj [(js ''toString'', JNull)])])"

definition rpc_infinite_id :: jv where
  "rpc_infinite_id =
     JObj [(js ''jsonrpc'', JStr (js ''2.0'')), (js ''id'', JNum PosInf),
           (js ''method'', JStr (js ''tools/call'')),
           (js ''params'', JObj [(js ''name'', JStr (js ''delete''))])]"

text \<open>A call whose tool name is an array that holds such an object, and a call of \<open>ask\<close>
  whose \<open>topK\<close> is one.\<close>

definition rpc_unprintable_list :: jv where
  "rpc_unprintable_list =
     rpc_call (JObj [(js ''name'', JArr [JStr (js ''ask''), JObj [(js ''toString'', JBool False)]])])"

definition rpc_unprintable_topK :: jv where
  "rpc_unprintable_topK =
     rpc_call (JObj [(js ''name'', JStr (js ''ask'')),
                     (js ''arguments'', JObj [(js ''query'', JStr (js ''plugins'')),
                                           (js ''topK'', JObj [(js ''toString'', JNull)])])])"

definition mcp_null :: request where
  "mcp_null = post_json (js ''/mcp'') (Some JNull)"

text \<open>The worker set to generate with an external model, and a search request.\<close>

definition ex_env_llm :: env where
  "ex_env_llm = ex_env\<lparr>USE_EXTERNAL_LLM := Some (js ''openai''), OPENAI_API_KEY := Some (js ''sk'')\<rparr>"

definition ask_plugins :: request where
  "ask_plugins = post_json (js ''/ask'')
     (Some (JObj [(js ''query'', JStr (js ''plugins'')), (js ''topK'', JNum (Fin 6)),
                  (js ''threshold'', JNum (Fin (3 / 10)))]))"

text \<open>Both workers with the ingestion token \<open>s3cret\<close>, and requests that carry a header of
  the wrong scheme and a wrong token.\<close>

definition ex_env_token :: env where
  "ex_env_token = ex_env\<lparr>INGESTION_TOKEN := Some (js ''s3cret'')\<rparr>"

definition ex_legacy_env_token :: legacy_env where
  "ex_legacy_env_token = ex_legacy_env\<lparr>L_INGESTION_TOKEN := Some (js ''s3cret'')\<rparr>"

definition ingest_basic :: request where
  "ingest_basic = ingest_note\<lparr>req_authorization := Some (js ''Basic s3cret'')\<rparr>"

definition ingest_wrong :: request where
  "ingest_wrong = ingest_note\<lparr>req_authorization := Some (js ''Bearer guess'')\<rparr>"

text \<open>A preflight request.\<close>

definition options_req :: request where
  "options_req =
     \<lparr>req_method = js ''OPTIONS'', req_pathname = js ''/ask'', req_search = [],
      req_origin = Some (js ''https://docs.example''), req_accept = None, req_content_type = None,
      req_authorization = None, req_body = None\<rparr>"

section \<open>Properties\<close>

text \<open>The definitions to unfold when a handler is evaluated on a concrete request.\<close>

lemmas ex_defs = ex_rt_def ex_world_def ex_env_def ex_legacy_env_def post_json_def

lemmas js_defs = js_def bnd_def js_or_def nc_def opt_get_def startsWith_def endsWith_def
  trim_def is_ws_def spread_def when_truthy_def parseBoolean_def toString_call_def
  opt_toString_def

lemmas worker_defs = fetch_def handleAsk_def ask_invocation_def body_invocation_def
  json_request_def body_query_def url_query_def ask_managed_def ask_external_def aiSearch_def
  clamp_topK_def clamp_threshold_def search_failed_def json_def getCorsHeaders_def
  handleIngestion_def ingest_body_def ingest_store_def ingest_key_def ingest_contentType_def
  customMetadata_def ingestion_failed_def unauthorized_def auth_rejected_def NLWebMcp_fetch_def
  tools_call_def tool_params_def server_error_def rpc_error_def rpc_result_def exn_text_def
  no_relevant_def notFound_def status_json_def

lemmas legacy_defs = legacy_fetch_def legacy_cors_def legacy_json_def method_not_allowed_def
  handleSearch_def search_binding_def binding_params_def search_rest_def rest_params_def
  rest_answer_def rest_base_def bearer_headers_def legacy_search_failed_def
  triggerAutoRAGSync_def sync_configured_def sync_try_def sync_url_def sync_init_def
  up_ok_def legacy_handleIngestion_def legacy_ingest_body_def legacy_ingest_store_def
  legacy_ingestion_failed_def handleSync_def sync_body_def unauthorized_def auth_rejected_def
  ingest_key_def ingest_contentType_def customMetadata_def

subsection \<open>Literals and JSON texts\<close>

lemma js_inj [simp]: "js a = js b \<longleftrightarrow> a = b"
  unfolding js_def by (simp add: inj_map_eq_map inj_def)

lemma js_Nil [simp]: "js s = [] \<longleftrightarrow> s = []" "[] = js s \<longleftrightarrow> s = []"
  by (auto simp: js_def)

lemma js_append: "js a @ js b = js (a @ b)"
  by (simp add: js_def)

lemma map_of_wire_props: "map_of (wire_props kvs) k = map_option wire (map_of kvs k)"
  by (induction kvs) auto

lemma map_of_filter_defined:
  "distinct (map fst al) \<Longrightarrow>
   map_of (filter (\<lambda>p. snd p \<noteq> JUndefined) al) k =
     (case map_of al k of None \<Rightarrow> None | Some v \<Rightarrow> if v = JUndefined then None else Some v)"
  by (induction al) (auto split: option.splits simp: map_of_eq_None_iff image_iff)

lemma wire_undefined: "wire v = JUndefined \<longleftrightarrow> v = JUndefined"
  by (cases v rule: wire.cases(1)) auto

text \<open>Reading a property of a JSON text gives the JSON text of the property.\<close>

lemma js_get_wire: "js_get (wire v) k = wire (js_get v k)"
proof (cases v)
  case (JObj kvs)
  show ?thesis
    by (simp add: JObj map_of_filter_defined distinct_clearjunk map_of_clearjunk map_of_wire_props
             split: option.splits)
next
  case (JNum n)
  then show ?thesis by (cases n) simp_all
qed simp_all

subsection \<open>Clamping of the result count and the score threshold\<close>

lemma clamp_topK_cases:
  "clamp_topK n = (case n of NaN \<Rightarrow> NaN | NegInf \<Rightarrow> Fin 1 | Fin x \<Rightarrow> Fin (min (max x 1) 50)
                   | PosInf \<Rightarrow> Fin 50)"
  by (cases n) (simp_all add: clamp_topK_def)

lemma clamp_threshold_cases:
  "clamp_threshold n = (case n of NaN \<Rightarrow> NaN | NegInf \<Rightarrow> Fin 0 | Fin x \<Rightarrow> Fin (max (min x 1) 0)
                        | PosInf \<Rightarrow> Fin 1)"
  by (cases n) (simp_all add: clamp_threshold_def)

lemma clamp_topK_range: "n \<noteq> NaN \<Longrightarrow> in_range 1 50 (clamp_topK n)"
  by (cases n) (auto simp: clamp_topK_def)

lemma clamp_threshold_range: "n \<noteq> NaN \<Longrightarrow> in_range 0 1 (clamp_threshold n)"
  by (cases n) (auto simp: clamp_threshold_def)

lemma clamp_topK_NaN: "clamp_topK NaN = NaN"
  by (simp add: clamp_topK_def)

lemma clamp_threshold_NaN: "clamp_threshold NaN = NaN"
  by (simp add: clamp_threshold_def)

lemma aiSearch_calls:
  assumes "AiSearch r sp \<in> set (fst (aiSearch w e p))"
  shows "(sp_max_num_results sp = NaN \<or> in_range 1 50 (sp_max_num_results sp)) \<and>
         (sp_score_threshold sp = NaN \<or> in_range 0 1 (sp_score_threshold sp))"
proof -
  from assms obtain a b where sp: "sp_max_num_results sp = clamp_topK a"
      "sp_score_threshold sp = clamp_threshold b"
    by (auto simp: aiSearch_def Let_def)
  show ?thesis
    using clamp_topK_range [of a] clamp_threshold_range [of b]
    by (cases "a = NaN"; cases "b = NaN") (simp_all add: sp clamp_topK_NaN clamp_threshold_NaN)
qed

lemma aiSearch_calls_split:
  "aiSearch w e p = (calls, res) \<Longrightarrow> AiSearch r sp \<in> set calls \<Longrightarrow>
   (sp_max_num_results sp = NaN \<or> in_range 1 50 (sp_max_num_results sp)) \<and>
   (sp_score_threshold sp = NaN \<or> in_range 0 1 (sp_score_threshold sp))"
  using aiSearch_calls [of r sp w e p] by simp

lemma ask_managed_calls:
  "fst (ask_managed w e q hs) =
   fst (aiSearch w e \<lparr>p_query = q_query q, p_topK = Some (q_topK q),
          p_threshold = Some (q_threshold q), p_stream = q_stream q,
          p_rewrite = Some (q_rewrite q)\<rparr>)"
  by (simp add: ask_managed_def split: prod.splits sum.splits)

lemma ask_external_calls: "AiSearch r sp \<notin> set (fst (ask_external w e req q hs))"
  by (simp add: ask_external_def Let_def split: sum.splits)

lemma handleAsk_calls:
  "AiSearch r sp \<in> set (fst (handleAsk w e req hs)) \<Longrightarrow>
   (sp_max_num_results sp = NaN \<or> in_range 1 50 (sp_max_num_results sp)) \<and>
   (sp_score_threshold sp = NaN \<or> in_range 0 1 (sp_score_threshold sp))"
  unfolding handleAsk_def
  by (auto simp: ask_managed_calls ask_external_calls split: if_splits sum.splits
           dest: aiSearch_calls)

lemma tools_call_calls:
  "AiSearch r sp \<in> set (fst (tools_call w e rpc i hs)) \<Longrightarrow>
   (sp_max_num_results sp = NaN \<or> in_range 1 50 (sp_max_num_results sp)) \<and>
   (sp_score_threshold sp = NaN \<or> in_range 0 1 (sp_score_threshold sp))"
  unfolding tools_call_def Let_def
  by (auto split: if_splits sum.splits prod.splits option.splits dest: aiSearch_calls_split)

lemma NLWebMcp_calls:
  "AiSearch r sp \<in> set (fst (NLWebMcp_fetch w e req)) \<Longrightarrow>
   (sp_max_num_results sp = NaN \<or> in_range 1 50 (sp_max_num_results sp)) \<and>
   (sp_score_threshold sp = NaN \<or> in_range 0 1 (sp_score_threshold sp))"
  unfolding NLWebMcp_fetch_def Let_def
  by (auto split: if_splits sum.splits dest: tools_call_calls)

lemma ingest_store_calls: "AiSearch r sp \<notin> set (fst (ingest_store w b hs))"
  by (auto simp: ingest_store_def Let_def split: sum.splits)

lemma handleIngestion_calls: "AiSearch r sp \<notin> set (fst (handleIngestion w e req hs))"
  by (auto simp: handleIngestion_def ingest_body_def ingest_store_calls
           split: if_splits option.splits)

text \<open>In managed mode a search with a query is always sent on, with the clamped
  values.\<close>

lemma managed_dispatch:
  assumes "\<not> set_str (USE_EXTERNAL_LLM e)" and "ask_invocation w e req = Inr q"
    and "q_query q \<noteq> []" and "req_method req = js ''POST'' \<or> req_method req = js ''GET''"
  shows "fst (handleAsk w e req hs) =
           [AiSearch (RAG_ID e)
              \<lparr>sp_query = q_query q, sp_rewrite_query = q_rewrite q,
               sp_max_num_results = clamp_topK (q_topK q),
               sp_score_threshold = clamp_threshold (q_threshold q),
               sp_stream = q_stream q\<rparr>]"
  using assms by (auto simp: handleAsk_def ask_managed_calls aiSearch_def Let_def)

text \<open>A request that the conversions of \<open>handleAsk\<close> throw on is not answered: the
  exception leaves the handler, and nothing is called.\<close>

lemma handleAsk_conversion_escapes:
  "req_method req = js ''POST'' \<or> req_method req = js ''GET'' \<Longrightarrow>
   ask_invocation w e req = Inl ex \<Longrightarrow> handleAsk w e req hs = ([], Inl ex)"
  by (auto simp: handleAsk_def)

text \<open>The older worker hands the caller's result count and ranking options to the
  binding as they are, with 5 and threshold 0.3 in place of a missing or falsy value.\<close>

lemma binding_params_forward:
  "js_get (binding_params b) (js ''max_num_results'')
     = js_or (js_get b (js ''max_num_results'')) (JNum (Fin 5))
   \<and> js_get (binding_params b) (js ''ranking_options'')
       = js_or (js_get b (js ''ranking_options''))
           (JObj [(js ''score_threshold'', JNum (Fin (3 / 10)))])"
  by (simp add: binding_params_def spread_def when_truthy_def js_inj)

lemma legacy_binding_dispatch:
  assumes "req_method req = js ''POST''" and "req_body req = Some b"
    and "truthy (js_get b (js ''query''))" and "L_AI le"
  shows "fst (handleSearch w le req hs) =
           [Autorag (js_get b (js ''use_ai_search'') \<noteq> JBool False) (L_AUTORAG_NAME le)
              (binding_params b)]"
proof -
  have "\<not> nullish b" using assms(3) by (cases b) auto
  with assms show ?thesis
    by (auto simp: handleSearch_def search_binding_def Let_def split: sum.splits)
qed

text \<open>A JSON body whose count and threshold are numbers is read with these numbers,
  whatever they are, when its other fields convert.\<close>

lemma json_invocation:
  assumes "json_request req" and "req_body req = Some b" and "\<not> nullish b"
    and "body_query (rt w) b = Inr s"
    and "js_get b (js ''topK'') = JNum n" and "js_get b (js ''threshold'') = JNum t"
    and "opt_toString (rt w) (js_get b (js ''stream'')) = Inr st"
    and "opt_toString (rt w) (js_get b (js ''rewrite'')) = Inr rw"
  shows "ask_invocation w e req =
           Inr \<lparr>q_query = s, q_topK = n, q_threshold = t,
                q_stream = (parseBoolean (rt w) st False
                            \<or> str_includes (str_nc (req_accept req) []) (js ''text/event-stream'')),
                q_rewrite = parseBoolean (rt w) rw True\<rparr>"
  using assms by (simp add: ask_invocation_def body_invocation_def Let_def bnd_def nc_def)




subsection \<open>Preflight requests\<close>

text \<open>
  Claim C9, as amended. An \<open>OPTIONS\<close> request on any path is answered at once, with no
  body, with the CORS headers of the worker that answers, and without any call: by the
  worker with status 204, by the older worker with the default status 200.
\<close>

theorem options_preflight:
  assumes "req_method req = js ''OPTIONS''"
  shows "fetch w e req =
           ([], Inr \<lparr>status = 204,
                     headers = getCorsHeaders (req_origin req) (ALLOWED_ORIGINS e),
                     body = NoBody\<rparr>)
       \<and> legacy_fetch w le req =
           ([], Inr \<lparr>status = 200, headers = legacy_cors le req, body = NoBody\<rparr>)"
  using assms by (simp add: fetch_def legacy_fetch_def)

text \<open>
  Claim C9, witness: a preflight from \<open>https://docs.example\<close> to both workers.
\<close>

theorem options_preflight_witness:
  "req_method options_req = js ''OPTIONS''
   \<and> fetch ex_world ex_env options_req =
        ([], Inr \<lparr>status = 204,
                  headers = [(js ''Access-Control-Allow-Origin'', js ''*''),
                             (js ''Access-Control-Allow-Headers'',
                              js ''Content-Type, Authorization, Accept''),
                             (js ''Access-Control-Allow-Methods'', js ''GET, POST, OPTIONS'')],
                  body = NoBody\<rparr>)
   \<and> legacy_fetch ex_world ex_legacy_env options_req =
        ([], Inr \<lparr>status = 200,
                  headers = [(js ''Access-Control-Allow-Origin'', js ''*''),
                             (js ''Access-Control-Allow-Methods'', js ''GET, POST, OPTIONS''),
                             (js ''Access-Control-Allow-Headers'', js ''Content-Type, Authorization'')],
                  body = NoBody\<rparr>)"
proof -
  have h: "req_method options_req = js ''OPTIONS''"
    by (simp add: options_req_def)
  show ?thesis
    using h options_preflight [OF h, of ex_world ex_env ex_legacy_env]
    by (simp add: ex_defs options_req_def getCorsHeaders_def legacy_cors_def js_defs)
qed

text \<open>
  Claim C9, counterexample: the older worker answers a preflight with status 200,
  not 204.
\<close>

theorem legacy_preflight_status:
  "legacy_fetch ex_world ex_legacy_env options_req =
     ([], Inr \<lparr>status = 200,
               headers = [(js ''Access-Control-Allow-Origin'', js ''*''),
                          (js ''Access-Control-Allow-Methods'', js ''GET, POST, OPTIONS''),
                          (js ''Access-Control-Allow-Headers'', js ''Content-Type, Authorization'')],
               body = NoBody\<rparr>)"
  by (simp add: ex_defs options_req_def legacy_defs js_defs)

subsection \<open>Exceptions that leave a handler\<close>

text \<open>
  Claim C3, at its failing input. \<open>POST /api/ingest\<close> with a body that is not JSON: the
  SyntaxError of \<open>req.json()\<close> is thrown before the \<open>try\<close> block of \<open>handleIngestion\<close> and
  leaves the worker; there is no response.
\<close>

theorem ingest_malformed_escapes:
  "fetch ex_world ex_env ingest_malformed = ([], Inl (SyntaxError (js ''Unexpected token'')))"
  by (simp add: ex_defs ingest_malformed_def fetch_def handleIngestion_def ingest_body_def js_inj)

text \<open>The older worker does the same, and so does a search request with such a body.\<close>

lemma legacy_malformed_escapes:
  "legacy_fetch ex_world ex_legacy_env ingest_malformed
     = ([], Inl (SyntaxError (js ''Unexpected token'')))
   \<and> legacy_fetch ex_world ex_legacy_env (post_json (js ''/api/autorag-search'') None)
     = ([], Inl (SyntaxError (js ''Unexpected token'')))"
  by (simp add: ex_defs ingest_malformed_def legacy_fetch_def legacy_handleIngestion_def
        legacy_ingest_body_def handleSearch_def js_inj)

text \<open>In the worker a search request whose JSON body is \<open>null\<close> throws as well, where
  \<open>handleAsk\<close> reads \<open>body.query\<close> before its \<open>try\<close> block.\<close>

lemma ask_null_body_escapes:
  "fetch ex_world ex_env (post_json (js ''/ask'') (Some JNull))
     = ([], Inl (TypeError (js ''Cannot read properties of null'')))"
  by (simp add: ex_defs worker_defs js_defs)

text \<open>
  Claim C10, at its failing input. \<open>POST /mcp\<close> with the JSON body \<open>null\<close>: the body parses,
  so the fallback to \<open>{}\<close> is not taken, and reading \<open>rpc.id\<close> throws before the \<open>try\<close>
  block; there is no response with status 200.
\<close>

theorem mcp_null_body_escapes:
  "fetch ex_world ex_env mcp_null = ([], Inl (TypeError (js ''Cannot read properties of null'')))"
  by (simp add: ex_defs mcp_null_def fetch_def NLWebMcp_fetch_def js_inj)

subsection \<open>Stored metadata\<close>

lemma map_of_spread: "map_of (spread base ext) = map_of base ++ map_of (rev ext)"
  unfolding spread_def
  by (induction ext arbitrary: base)
     (auto simp: update_conv' fun_eq_iff map_add_def split: option.splits)

lemma map_of_rev_distinct: "distinct (map fst xs) \<Longrightarrow> map_of (rev xs) = map_of xs"
proof -
  assume d: "distinct (map fst xs)"
  have "map fst (rev xs) = rev (map fst xs)" by (simp add: rev_map)
  then have "distinct (map fst (rev xs))" using d by simp
  then show ?thesis using d by (subst map_of_inject_set) simp_all
qed

text \<open>Different indices print differently, so the entries of an array have distinct
  names.\<close>

lemma digits_nonempty: "digits n \<noteq> []"
  by (subst digits.simps) simp

lemma digits_small: "n < 10 \<Longrightarrow> digits n = [48 + n]"
  by (subst digits.simps) simp

lemma digits_large: "\<not> n < 10 \<Longrightarrow> digits n = digits (n div 10) @ [48 + n mod 10]"
  by (subst digits.simps) simp

lemma digits_inj: "digits n = digits m \<Longrightarrow> n = m"
proof (induction n arbitrary: m rule: digits.induct)
  case (1 n)
  show ?case
  proof (cases "n < 10")
    case n: True
    show ?thesis
    proof (cases "m < 10")
      case True
      with n 1(2) show ?thesis by (simp add: digits_small)
    next
      case False
      with n 1(2) have "digits (m div 10) = []" by (simp add: digits_small digits_large)
      with digits_nonempty show ?thesis by blast
    qed
  next
    case n: False
    show ?thesis
    proof (cases "m < 10")
      case True
      with n 1(2) have "digits (n div 10) = []" by (simp add: digits_small digits_large)
      with digits_nonempty show ?thesis by blast
    next
      case False
      with n 1(2) have e1: "digits (n div 10) = digits (m div 10)"
        and e2: "n mod 10 = m mod 10"
        by (simp_all add: digits_large)
      from 1(1) [OF n e1] have d: "n div 10 = m div 10" .
      with e2 show ?thesis by (metis div_mult_mod_eq)
    qed
  qed
qed

lemma distinct_entries: "distinct (map fst (entries v))"
proof (cases v)
  case (JObj kvs)
  then show ?thesis by (simp add: distinct_clearjunk)
next
  case (JArr xs)
  have "distinct (map digits [0..<length xs])"
    by (simp add: distinct_map inj_on_def digits_inj)
  then show ?thesis using JArr by simp
next
  case (JStr s)
  have "distinct (map digits [0..<length s])"
    by (simp add: distinct_map inj_on_def digits_inj)
  then show ?thesis using JStr by simp
qed simp_all

text \<open>When every entry prints, the printed entries have the names of the entries, each
  with the printed value.\<close>

lemma stringify_entries_keys:
  "stringify_entries r kvs = Inr es \<Longrightarrow> map fst es = map fst kvs"
  by (induction kvs arbitrary: es) (auto simp: bnd_def split: sum.splits)

lemma stringify_entries_map_of:
  "stringify_entries r kvs = Inr es \<Longrightarrow>
   (case map_of kvs k of
      Some v \<Rightarrow> \<exists>s. js_String r v = Inr s \<and> map_of es k = Some s
    | None \<Rightarrow> map_of es k = None)"
proof (induction kvs arbitrary: es)
  case Nil
  then show ?case by simp
next
  case (Cons kv kvs)
  from Cons.prems obtain s rest where s: "js_String r (snd kv) = Inr s"
    and rest: "stringify_entries r kvs = Inr rest" and es: "es = (fst kv, s) # rest"
    by (auto simp: bnd_def split: sum.splits)
  from Cons.IH [OF rest] s show ?case
    by (cases kv) (auto simp: es split: option.splits)
qed

lemma map_of_customMetadata:
  assumes "customMetadata r src ts b = Inr md"
  shows "case map_of (entries (js_or (js_get b (js ''metadata'')) (JObj []))) k of
           Some v \<Rightarrow> \<exists>s. js_String r v = Inr s \<and> map_of md k = Some s
         | None \<Rightarrow> map_of md k = map_of [(js ''source'', src), (js ''timestamp'', ts)] k"
proof -
  let ?es = "entries (js_or (js_get b (js ''metadata'')) (JObj []))"
  from assms obtain ext where ext: "stringify_entries r ?es = Inr ext"
    and md: "md = spread [(js ''source'', src), (js ''timestamp'', ts)] ext"
    by (auto simp: customMetadata_def bnd_def split: sum.splits)
  have "distinct (map fst ext)"
    using distinct_entries [of "js_or (js_get b (js ''metadata'')) (JObj [])"]
      stringify_entries_keys [OF ext] by simp
  then have "map_of (rev ext) = map_of ext" by (rule map_of_rev_distinct)
  with stringify_entries_map_of [OF ext, of k] show ?thesis
    by (auto simp: md map_of_spread map_add_def split: option.splits)
qed

lemma ingest_store_put:
  "BucketPut key c ct md \<in> set (fst (ingest_store w b hs)) \<Longrightarrow>
   customMetadata (rt w) (js ''api-ingestion'') (now w) b = Inr md"
  by (auto simp: ingest_store_def Let_def split: sum.splits)

lemma handleIngestion_put:
  "BucketPut key c ct md \<in> set (fst (handleIngestion w e req hs)) \<Longrightarrow>
   req_body req = Some b \<Longrightarrow> customMetadata (rt w) (js ''api-ingestion'') (now w) b = Inr md"
  by (auto simp: handleIngestion_def ingest_body_def split: if_splits dest: ingest_store_put)

lemma trigger_no_put: "BucketPut key c ct md \<notin> set (fst (triggerAutoRAGSync w e))"
  by (simp add: triggerAutoRAGSync_def)

lemma legacy_ingest_store_put:
  "BucketPut key c ct md \<in> set (fst (legacy_ingest_store w e b hs)) \<Longrightarrow>
   customMetadata (rt w) (js ''continuous-ingestion'') (now w) b = Inr md"
  using trigger_no_put [of key c ct md w e]
  by (auto simp: legacy_ingest_store_def Let_def split: sum.splits prod.splits)

lemma legacy_handleIngestion_put:
  "BucketPut key c ct md \<in> set (fst (legacy_handleIngestion w e req hs)) \<Longrightarrow>
   req_body req = Some b \<Longrightarrow>
   customMetadata (rt w) (js ''continuous-ingestion'') (now w) b = Inr md"
  by (auto simp: legacy_handleIngestion_def legacy_ingest_body_def method_not_allowed_def
           split: if_splits dest: legacy_ingest_store_put)

text \<open>
  Claim C2, as amended. In both workers the metadata stored with an ingested blob holds,
  under each name, the caller's value (as a string) when the caller supplied one, and
  the system's \<open>source\<close> tag or timestamp only when the caller supplied none: on a
  conflict the caller's value is the one stored.
\<close>

theorem stored_metadata_caller_first:
  assumes "req_body req = Some b"
  shows "(BucketPut key c ct md \<in> set (fst (handleIngestion w e req hs)) \<longrightarrow>
            (case map_of (entries (js_or (js_get b (js ''metadata'')) (JObj []))) k of
               Some v \<Rightarrow> \<exists>s. js_String (rt w) v = Inr s \<and> map_of md k = Some s
             | None \<Rightarrow> map_of md k =
                 map_of [(js ''source'', js ''api-ingestion''), (js ''timestamp'', now w)] k))
       \<and> (BucketPut key c ct md \<in> set (fst (legacy_handleIngestion w le req hs)) \<longrightarrow>
            (case map_of (entries (js_or (js_get b (js ''metadata'')) (JObj []))) k of
               Some v \<Rightarrow> \<exists>s. js_String (rt w) v = Inr s \<and> map_of md k = Some s
             | None \<Rightarrow> map_of md k =
                 map_of [(js ''source'', js ''continuous-ingestion''),
                         (js ''timestamp'', now w)] k))"
proof (intro conjI impI)
  assume "BucketPut key c ct md \<in> set (fst (handleIngestion w e req hs))"
  then have "customMetadata (rt w) (js ''api-ingestion'') (now w) b = Inr md"
    using assms by (rule handleIngestion_put)
  then show "case map_of (entries (js_or (js_get b (js ''metadata'')) (JObj []))) k of
               Some v \<Rightarrow> \<exists>s. js_String (rt w) v = Inr s \<and> map_of md k = Some s
             | None \<Rightarrow> map_of md k =
                 map_of [(js ''source'', js ''api-ingestion''), (js ''timestamp'', now w)] k"
    by (rule map_of_customMetadata)
next
  assume "BucketPut key c ct md \<in> set (fst (legacy_handleIngestion w le req hs))"
  then have "customMetadata (rt w) (js ''continuous-ingestion'') (now w) b = Inr md"
    using assms by (rule legacy_handleIngestion_put)
  then show "case map_of (entries (js_or (js_get b (js ''metadata'')) (JObj []))) k of
               Some v \<Rightarrow> \<exists>s. js_String (rt w) v = Inr s \<and> map_of md k = Some s
             | None \<Rightarrow> map_of md k =
                 map_of [(js ''source'', js ''continuous-ingestion''),
                         (js ''timestamp'', now w)] k"
    by (rule map_of_customMetadata)
qed

text \<open>
  Claim C2, witness: a note that brings its own \<open>source\<close> is stored under that
  source, by either worker.
\<close>

theorem stored_metadata_caller_first_witness:
  "req_body ingest_own
     = Some (JObj [(js ''path'', JStr (js ''/notes/a.md'')), (js ''content'', JStr (js ''# A'')),
                   (js ''metadata'', JObj [(js ''source'', JStr (js ''mine'')),
                                        (js ''timestamp'', JStr (js ''yesterday''))])])
   \<and> BucketPut (js ''notes/a.md'') (JStr (js ''# A'')) (JStr (js ''text/markdown''))
        [(js ''source'', js ''mine''), (js ''timestamp'', js ''yesterday'')]
       \<in> set (fst (handleIngestion ex_world ex_env ingest_own []))
   \<and> BucketPut (js ''notes/a.md'') (JStr (js ''# A'')) (JStr (js ''text/markdown''))
        [(js ''source'', js ''mine''), (js ''timestamp'', js ''yesterday'')]
       \<in> set (fst (legacy_handleIngestion ex_world ex_legacy_env ingest_own []))
   \<and> map_of [(js ''source'', js ''mine''), (js ''timestamp'', js ''yesterday'')] (js ''source'')
       = Some (js ''mine'')"
proof -
  let ?b = "JObj [(js ''path'', JStr (js ''/notes/a.md'')), (js ''content'', JStr (js ''# A'')),
                  (js ''metadata'', JObj [(js ''source'', JStr (js ''mine'')),
                                       (js ''timestamp'', JStr (js ''yesterday''))])]"
  let ?m = "[(js ''source'', js ''mine''), (js ''timestamp'', js ''yesterday'')]"
  have b: "req_body ingest_own = Some ?b"
    by (simp add: ingest_own_def post_json_def)
  have p1: "BucketPut (js ''notes/a.md'') (JStr (js ''# A'')) (JStr (js ''text/markdown'')) ?m
              \<in> set (fst (handleIngestion ex_world ex_env ingest_own []))"
    by (simp add: ex_defs ingest_own_def worker_defs js_defs)
  have p2: "BucketPut (js ''notes/a.md'') (JStr (js ''# A'')) (JStr (js ''text/markdown'')) ?m
              \<in> set (fst (legacy_handleIngestion ex_world ex_legacy_env ingest_own []))"
    by (simp add: ex_defs ingest_own_def legacy_defs js_defs)
  from stored_metadata_caller_first [OF b,
      of "js ''notes/a.md''" "JStr (js ''# A'')" "JStr (js ''text/markdown'')" ?m ex_world ex_env
         "[]" "js ''source''" ex_legacy_env] p1 p2
  have "map_of ?m (js ''source'') = Some (js ''mine'')"
    by (simp add: js_or_def ex_defs js_inj)
  then show ?thesis using b p1 p2 by blast
qed

text \<open>
  Claim C2, counterexample: a caller that sends its own \<open>source\<close> and \<open>timestamp\<close> has
  them stored in place of the system's.
\<close>

theorem caller_metadata_overrides:
  "fst (fetch ex_world ex_env ingest_own) =
     [BucketPut (js ''notes/a.md'') (JStr (js ''# A'')) (JStr (js ''text/markdown''))
        [(js ''source'', js ''mine''), (js ''timestamp'', js ''yesterday'')]]"
  by (simp add: ex_defs ingest_own_def worker_defs js_defs)

subsection \<open>Empty queries\<close>

lemma trim_blank: "\<forall>c \<in> set s. is_ws c \<Longrightarrow> trim s = []"
proof -
  assume "\<forall>c \<in> set s. is_ws c"
  then have d: "dropWhile is_ws s = []" by simp
  show "trim s = []" unfolding trim_def d by simp
qed

text \<open>Trimming leaves nothing exactly of the strings made of white space only.\<close>

lemma trim_empty_iff: "trim s = [] \<longleftrightarrow> (\<forall>c \<in> set s. is_ws c)"
proof
  assume t: "trim s = []"
  show "\<forall>c \<in> set s. is_ws c"
  proof (rule ccontr)
    assume "\<not> (\<forall>c \<in> set s. is_ws c)"
    then have n: "dropWhile is_ws s \<noteq> []" by simp
    then have "\<not> is_ws (hd (dropWhile is_ws s))" by (rule hd_dropWhile)
    moreover have "hd (dropWhile is_ws s) \<in> set (rev (dropWhile is_ws s))" using n by simp
    ultimately have "dropWhile is_ws (rev (dropWhile is_ws s)) \<noteq> []" by auto
    with t show False by (simp add: trim_def)
  qed
qed (rule trim_blank)

text \<open>The conversions of lines 95 to 99 on a body whose query is blank.\<close>

lemma blank_invocation:
  assumes "toString_call (rt w) (js_or (js_get b (js ''query'')) (JStr [])) = Inr s"
    and "trim s = []"
    and "\<not> isl (js_Number (rt w)
                  (nc (js_get b (js ''topK'')) (JStr (str_nc (DEFAULT_TOPK e) (js ''6'')))))"
    and "\<not> isl (js_Number (rt w)
                  (nc (js_get b (js ''threshold''))
                     (JStr (str_nc (DEFAULT_THRESHOLD e) (js ''0.30'')))))"
    and "\<not> isl (opt_toString (rt w) (js_get b (js ''stream'')))"
    and "\<not> isl (opt_toString (rt w) (js_get b (js ''rewrite'')))"
  shows "\<exists>q. body_invocation w e accept b = Inr q \<and> q_query q = []"
  using assms
  by (auto simp: body_invocation_def body_query_def bnd_def split: sum.splits)

lemma empty_body_invocation:
  "\<exists>q. body_invocation w e accept (JObj []) = Inr q \<and> q_query q = []"
  by (simp add: body_invocation_def body_query_def bnd_def js_or_def nc_def toString_call_def
        opt_toString_def trim_def)

text \<open>
  Claim C4, as amended. A \<open>POST\<close> to a search path of the worker whose query is empty
  after trimming is answered with status 400 and the error \<open>Missing 'query' parameter\<close>,
  and nothing is called, provided the request is read without an exception. With a
  JSON content type the query is \<open>body.query\<close> (a body that is not JSON counts as \<open>{}\<close>),
  and the fields \<open>topK\<close>, \<open>threshold\<close>, \<open>stream\<close> and \<open>rewrite\<close> of the body are converted
  before the query is looked at, so they must convert; otherwise the query is the \<open>q\<close> or
  \<open>query\<close> parameter of the address. The older worker answers 400 with the error
  \<open>Query is required\<close> when \<open>body.query\<close> is missing or falsy, the empty string included; it
  does not trim. A string is empty after trimming exactly when it is made of white space
  only.
\<close>

theorem empty_query_is_invalid:
  assumes "req_method req = js ''POST''"
  shows "((req_pathname req = js ''/ask'' \<or> req_pathname req = js ''/api/autorag-search'') \<longrightarrow>
          (if json_request req
           then req_body req = None \<or>
                (\<exists>b s. req_body req = Some b \<and> \<not> nullish b
                   \<and> toString_call (rt w) (js_or (js_get b (js ''query'')) (JStr [])) = Inr s
                   \<and> trim s = []
                   \<and> \<not> isl (js_Number (rt w)
                               (nc (js_get b (js ''topK''))
                                  (JStr (str_nc (DEFAULT_TOPK e) (js ''6'')))))
                   \<and> \<not> isl (js_Number (rt w)
                               (nc (js_get b (js ''threshold''))
                                  (JStr (str_nc (DEFAULT_THRESHOLD e) (js ''0.30'')))))
                   \<and> \<not> isl (opt_toString (rt w) (js_get b (js ''stream'')))
                   \<and> \<not> isl (opt_toString (rt w) (js_get b (js ''rewrite''))))
           else url_query req = []) \<longrightarrow>
          fetch w e req =
            ([], Inr \<lparr>status = 400,
                      headers = spread [(js ''Content-Type'', js ''application/json'')]
                                  (getCorsHeaders (req_origin req) (ALLOWED_ORIGINS e)),
                      body = Json (JObj [(js ''error'',
                                          JStr (js ''Missing 'query' parameter''))])\<rparr>))
       \<and> (req_pathname req = js ''/api/autorag-search'' \<longrightarrow>
          (\<exists>b. req_body req = Some b \<and> \<not> nullish b \<and> \<not> truthy (js_get b (js ''query''))) \<longrightarrow>
          legacy_fetch w le req =
            ([], Inr \<lparr>status = 400,
                      headers = spread (legacy_cors le req)
                                  [(js ''Content-Type'', js ''application/json'')],
                      body = Json (JObj [(js ''error'', JStr (js ''Query is required''))])\<rparr>))
       \<and> (trim u = [] \<longleftrightarrow> (\<forall>c \<in> set u. is_ws c))"
proof (intro conjI impI)
  let ?hs = "getCorsHeaders (req_origin req) (ALLOWED_ORIGINS e)"
  let ?res = "\<lparr>status = 400,
               headers = spread [(js ''Content-Type'', js ''application/json'')] ?hs,
               body = Json (JObj [(js ''error'', JStr (js ''Missing 'query' parameter''))])\<rparr>"
  assume p: "req_pathname req = js ''/ask'' \<or> req_pathname req = js ''/api/autorag-search''"
    and q: "if json_request req
           then req_body req = None \<or>
                (\<exists>b s. req_body req = Some b \<and> \<not> nullish b
                   \<and> toString_call (rt w) (js_or (js_get b (js ''query'')) (JStr [])) = Inr s
                   \<and> trim s = []
                   \<and> \<not> isl (js_Number (rt w)
                               (nc (js_get b (js ''topK''))
                                  (JStr (str_nc (DEFAULT_TOPK e) (js ''6'')))))
                   \<and> \<not> isl (js_Number (rt w)
                               (nc (js_get b (js ''threshold''))
                                  (JStr (str_nc (DEFAULT_THRESHOLD e) (js ''0.30'')))))
                   \<and> \<not> isl (opt_toString (rt w) (js_get b (js ''stream'')))
                   \<and> \<not> isl (opt_toString (rt w) (js_get b (js ''rewrite''))))
           else url_query req = []"
  have "\<exists>i. ask_invocation w e req = Inr i \<and> q_query i = []"
  proof (cases "json_request req")
    case True
    with q consider "req_body req = None"
      | b s where "req_body req = Some b" "\<not> nullish b"
          "toString_call (rt w) (js_or (js_get b (js ''query'')) (JStr [])) = Inr s"
          "trim s = []"
          "\<not> isl (js_Number (rt w)
                    (nc (js_get b (js ''topK'')) (JStr (str_nc (DEFAULT_TOPK e) (js ''6'')))))"
          "\<not> isl (js_Number (rt w)
                    (nc (js_get b (js ''threshold''))
                       (JStr (str_nc (DEFAULT_THRESHOLD e) (js ''0.30'')))))"
          "\<not> isl (opt_toString (rt w) (js_get b (js ''stream'')))"
          "\<not> isl (opt_toString (rt w) (js_get b (js ''rewrite'')))"
      by auto
    then show ?thesis
    proof cases
      case 1
      with True empty_body_invocation [of w e "str_nc (req_accept req) []"] show ?thesis
        by (simp add: ask_invocation_def Let_def)
    next
      case 2
      with True blank_invocation [of w b s e "str_nc (req_accept req) []"] show ?thesis
        by (simp add: ask_invocation_def Let_def)
    qed
  next
    case False
    with q show ?thesis by (auto simp: ask_invocation_def Let_def)
  qed
  then have "handleAsk w e req ?hs = ([], Inr ?res)"
    using assms by (auto simp: handleAsk_def json_def js_inj)
  with p assms show "fetch w e req = ([], Inr ?res)"
    by (auto simp: fetch_def Let_def js_inj)
next
  assume "req_pathname req = js ''/api/autorag-search''"
    and "\<exists>b. req_body req = Some b \<and> \<not> nullish b \<and> \<not> truthy (js_get b (js ''query''))"
  with assms show "legacy_fetch w le req =
            ([], Inr \<lparr>status = 400,
                      headers = spread (legacy_cors le req)
                                  [(js ''Content-Type'', js ''application/json'')],
                      body = Json (JObj [(js ''error'', JStr (js ''Query is required''))])\<rparr>)"
    by (auto simp: legacy_fetch_def Let_def handleSearch_def legacy_json_def js_inj)
next
  show "trim u = [] \<longleftrightarrow> (\<forall>c \<in> set u. is_ws c)" by (rule trim_empty_iff)
qed

text \<open>
  Claim C4, witness: the worker rejects a query of three spaces and a query made of a
  no-break space and a space, the older worker an empty query.
\<close>

theorem empty_query_is_invalid_witness:
  "req_method ask_blank = js ''POST'' \<and> req_pathname ask_blank = js ''/ask''
   \<and> json_request ask_blank
   \<and> trim (js ''   '') = []
   \<and> fetch ex_world ex_env ask_blank =
        ([], Inr \<lparr>status = 400,
                  headers = spread [(js ''Content-Type'', js ''application/json'')]
                              (getCorsHeaders None None),
                  body = Json (JObj [(js ''error'', JStr (js ''Missing 'query' parameter''))])\<rparr>)
   \<and> trim [160, 32] = []
   \<and> fetch ex_world ex_env ask_nbsp =
        ([], Inr \<lparr>status = 400,
                  headers = spread [(js ''Content-Type'', js ''application/json'')]
                              (getCorsHeaders None None),
                  body = Json (JObj [(js ''error'', JStr (js ''Missing 'query' parameter''))])\<rparr>)
   \<and> req_method search_empty = js ''POST'' \<and> req_pathname search_empty = js ''/api/autorag-search''
   \<and> legacy_fetch ex_world ex_legacy_env search_empty =
        ([], Inr \<lparr>status = 400,
                  headers = spread (legacy_cors ex_legacy_env search_empty)
                              [(js ''Content-Type'', js ''application/json'')],
                  body = Json (JObj [(js ''error'', JStr (js ''Query is required''))])\<rparr>)"
proof -
  let ?b = "JObj [(js ''query'', JStr (js ''   '')), (js ''topK'', JNum (Fin 3))]"
  let ?n = "JObj [(js ''query'', JStr [160, 32])]"
  have m1: "req_method ask_blank = js ''POST''" and p1: "req_pathname ask_blank = js ''/ask''"
    and j1: "json_request ask_blank" and b1: "req_body ask_blank = Some ?b"
    and o1: "req_origin ask_blank = None"
    by (simp_all add: ask_blank_def post_json_def json_request_def startsWith_def js_def)
  have c1: "toString_call (rt ex_world) (js_or (js_get ?b (js ''query'')) (JStr []))
              = Inr (js ''   '')"
      "\<not> isl (js_Number (rt ex_world)
                 (nc (js_get ?b (js ''topK'')) (JStr (str_nc (DEFAULT_TOPK ex_env) (js ''6'')))))"
      "\<not> isl (js_Number (rt ex_world)
                 (nc (js_get ?b (js ''threshold''))
                    (JStr (str_nc (DEFAULT_THRESHOLD ex_env) (js ''0.30'')))))"
      "\<not> isl (opt_toString (rt ex_world) (js_get ?b (js ''stream'')))"
      "\<not> isl (opt_toString (rt ex_world) (js_get ?b (js ''rewrite'')))"
    by (simp_all add: js_defs)
  have t1: "trim (js ''   '') = []"
    by (simp add: js_defs)
  have m3: "req_method ask_nbsp = js ''POST''" and p3: "req_pathname ask_nbsp = js ''/ask''"
    and j3: "json_request ask_nbsp" and b3: "req_body ask_nbsp = Some ?n"
    and o3: "req_origin ask_nbsp = None"
    by (simp_all add: ask_nbsp_def post_json_def json_request_def startsWith_def js_def)
  have c3: "toString_call (rt ex_world) (js_or (js_get ?n (js ''query'')) (JStr []))
              = Inr [160, 32]"
      "\<not> isl (js_Number (rt ex_world)
                 (nc (js_get ?n (js ''topK'')) (JStr (str_nc (DEFAULT_TOPK ex_env) (js ''6'')))))"
      "\<not> isl (js_Number (rt ex_world)
                 (nc (js_get ?n (js ''threshold''))
                    (JStr (str_nc (DEFAULT_THRESHOLD ex_env) (js ''0.30'')))))"
      "\<not> isl (opt_toString (rt ex_world) (js_get ?n (js ''stream'')))"
      "\<not> isl (opt_toString (rt ex_world) (js_get ?n (js ''rewrite'')))"
    by (simp_all add: js_defs)
  have t3: "trim [160, 32] = []"
    by (simp add: js_defs)
  have m2: "req_method search_empty = js ''POST''"
    and p2: "req_pathname search_empty = js ''/api/autorag-search''"
    and b2: "req_body search_empty = Some (JObj [(js ''query'', JStr [])])"
    by (simp_all add: search_empty_def post_json_def)
  from empty_query_is_invalid [OF m1, of ex_world ex_env ex_legacy_env] p1 j1 b1 c1 t1 o1
  have r1: "fetch ex_world ex_env ask_blank =
        ([], Inr \<lparr>status = 400,
                  headers = spread [(js ''Content-Type'', js ''application/json'')]
                              (getCorsHeaders None None),
                  body = Json (JObj [(js ''error'', JStr (js ''Missing 'query' parameter''))])\<rparr>)"
    by (simp add: ex_env_def)
  from empty_query_is_invalid [OF m3, of ex_world ex_env ex_legacy_env] p3 j3 b3 c3 t3 o3
  have r3: "fetch ex_world ex_env ask_nbsp =
        ([], Inr \<lparr>status = 400,
                  headers = spread [(js ''Content-Type'', js ''application/json'')]
                              (getCorsHeaders None None),
                  body = Json (JObj [(js ''error'', JStr (js ''Missing 'query' parameter''))])\<rparr>)"
    by (simp add: ex_env_def)
  from empty_query_is_invalid [OF m2, of ex_world ex_env ex_legacy_env] p2 b2
  have r2: "legacy_fetch ex_world ex_legacy_env search_empty =
        ([], Inr \<lparr>status = 400,
                  headers = spread (legacy_cors ex_legacy_env search_empty)
                              [(js ''Content-Type'', js ''application/json'')],
                  body = Json (JObj [(js ''error'', JStr (js ''Query is required''))])\<rparr>)"
    by simp
  show ?thesis using m1 p1 j1 t1 r1 t3 r3 m2 p2 r2 by blast
qed

text \<open>
  Claim C4, counterexample: the older worker does not reject a query of three
  spaces; it sends it to the backend and answers with status 200.
\<close>

theorem legacy_blank_query_dispatched:
  "legacy_fetch ex_world ex_legacy_env search_blank =
     ([Autorag True (Some (js ''docs''))
         (JObj [(js ''query'', JStr (js ''   '')), (js ''max_num_results'', JNum (Fin 5)),
                (js ''rewrite_query'', JBool True),
                (js ''ranking_options'', JObj [(js ''score_threshold'', JNum (Fin (3 / 10)))])])],
      Inr \<lparr>status = 200,
           headers = [(js ''Access-Control-Allow-Origin'', js ''*''),
                      (js ''Access-Control-Allow-Methods'', js ''GET, POST, OPTIONS''),
                      (js ''Access-Control-Allow-Headers'', js ''Content-Type, Authorization''),
                      (js ''Content-Type'', js ''application/json'')],
           body = Json (JObj [(js ''response'', JStr (js ''answer''))])\<rparr>)"
  by (simp add: ex_defs search_blank_def legacy_defs js_defs)

text \<open>In the worker a blank query is not answered with 400 when another field of the
  body does not convert: the TypeError is thrown before the query is looked at, and
  leaves the handler.\<close>

lemma ask_blank_unprintable_escapes:
  "fetch ex_world ex_env ask_blank_unprintable
     = ([], Inl (TypeError (js ''toString is not a function'')))"
  by (simp add: ex_defs ask_blank_unprintable_def worker_defs js_defs)

subsection \<open>The sync trigger never fails an ingestion\<close>

lemma trigger_returns: "\<exists>v. snd (triggerAutoRAGSync w e) = Inr v"
  by (simp add: triggerAutoRAGSync_def split: sum.splits)

lemma trigger_cooldown:
  "sync_configured e \<Longrightarrow> http_fetch w (sync_url e) (sync_init e) = Inr r \<Longrightarrow>
   up_status r = 429 \<or> up_status r = 409 \<Longrightarrow>
   snd (triggerAutoRAGSync w e)
     = Inr (JObj [(js ''skipped'', JBool True),
                  (js ''reason'',
                   JStr (js ''Sync is on cooldown (3-minute minimum between syncs)''))])"
  by (auto simp: triggerAutoRAGSync_def sync_try_def up_ok_def)

lemma trigger_failed:
  "sync_configured e \<Longrightarrow> http_fetch w (sync_url e) (sync_init e) = Inr r \<Longrightarrow>
   up_status r < 200 \<or> 299 < up_status r \<Longrightarrow> up_status r \<noteq> 429 \<Longrightarrow> up_status r \<noteq> 409 \<Longrightarrow>
   up_text r = Inr t \<Longrightarrow>
   snd (triggerAutoRAGSync w e)
     = Inr (JObj [(js ''error'', JBool True),
                  (js ''message'',
                   JStr (js ''Sync API error: '' @ digits (up_status r) @ js '' - '' @ t))])"
  by (auto simp: triggerAutoRAGSync_def sync_try_def up_ok_def)

lemma trigger_exception:
  "sync_configured e \<Longrightarrow> http_fetch w (sync_url e) (sync_init e) = Inl ex \<Longrightarrow>
   snd (triggerAutoRAGSync w e)
     = Inr (JObj [(js ''error'', JBool True), (js ''message'', JStr (message ex))])"
  by (auto simp: triggerAutoRAGSync_def sync_try_def)

lemma trigger_unconfigured:
  "\<not> sync_configured e \<Longrightarrow>
   triggerAutoRAGSync w e
     = ([], Inr (JObj [(js ''skipped'', JBool True), (js ''reason'', JStr (js ''Not configured''))]))"
  by (simp add: triggerAutoRAGSync_def)

lemma ingestion_reports_success:
  assumes "req_method req = js ''POST''"
    and "\<not> set_str (L_INGESTION_TOKEN e)
         \<or> req_authorization req = Some (js ''Bearer '' @ str_nc (L_INGESTION_TOKEN e) [])"
    and "req_body req = Some b" and "js_get b (js ''path'') = JStr p" and "p \<noteq> []"
    and "truthy (js_get b (js ''content''))"
    and "key = (if startsWith p (js ''/'') then drop 1 p else p)"
    and "customMetadata (rt w) (js ''continuous-ingestion'') (now w) b = Inr md"
    and "bucket_put w key (js_get b (js ''content'')) (ingest_contentType (rt w) b key) md
           = Inr ()"
  shows "\<exists>sync res v. snd (triggerAutoRAGSync w e) = Inr sync \<and>
          snd (legacy_handleIngestion w e req hs) = Inr res \<and>
          status res = 200 \<and> body res = Json v \<and>
          js_get v (js ''success'') = JBool True \<and>
          js_get v (js ''path'') = JStr key \<and>
          js_get v (js ''sync'') = wire sync"
proof -
  obtain calls sync where t: "triggerAutoRAGSync w e = (calls, Inr sync)"
    using trigger_returns [of w e] by (cases "triggerAutoRAGSync w e") auto
  let ?v = "JObj [(js ''success'', JBool True),
                  (js ''message'', JStr (js ''Document ingested successfully'')),
                  (js ''path'', JStr key), (js ''sync'', sync)]"
  have nn: "\<not> nullish b" using assms(4) by (cases b) auto
  have k: "ingest_key (JStr p) = Inr key" using assms(7) by (simp add: ingest_key_def)
  have "legacy_ingest_store w e b hs =
     (BucketPut key (js_get b (js ''content'')) (ingest_contentType (rt w) b key) md # calls,
      Inr (legacy_json ?v 200 hs))"
    using assms(4,8,9) k t by (simp add: legacy_ingest_store_def Let_def)
  then have r: "snd (legacy_handleIngestion w e req hs) = Inr (legacy_json ?v 200 hs)"
    using assms(1-6) nn
    by (auto simp: legacy_handleIngestion_def legacy_ingest_body_def auth_rejected_def)
  have "js_get (wire ?v) (js ''success'') = JBool True"
      "js_get (wire ?v) (js ''path'') = JStr key"
      "js_get (wire ?v) (js ''sync'') = wire sync"
    by (simp_all add: js_get_wire js_inj)
  with r t show ?thesis by (simp add: legacy_json_def)
qed

text \<open>An ingestion in whose run the re-index endpoint was called reports success.\<close>

lemma legacy_store_after_sync:
  assumes "Fetch u i \<in> set (fst (legacy_ingest_store w e b hs))"
  shows "\<exists>sync res v. snd (triggerAutoRAGSync w e) = Inr sync \<and>
          snd (legacy_ingest_store w e b hs) = Inr res \<and>
          status res = 200 \<and> body res = Json v \<and>
          js_get v (js ''success'') = JBool True \<and>
          js_get v (js ''sync'') = wire sync"
proof -
  obtain calls sync where t: "triggerAutoRAGSync w e = (calls, Inr sync)"
    using trigger_returns [of w e] by (cases "triggerAutoRAGSync w e") auto
  from assms t show ?thesis
    by (auto simp: legacy_ingest_store_def Let_def legacy_json_def js_get_wire
             split: sum.splits)
qed

lemma legacy_ingestion_after_sync:
  assumes "Fetch u i \<in> set (fst (legacy_handleIngestion w e req hs))"
  shows "\<exists>sync res v. snd (triggerAutoRAGSync w e) = Inr sync \<and>
          snd (legacy_handleIngestion w e req hs) = Inr res \<and>
          status res = 200 \<and> body res = Json v \<and>
          js_get v (js ''success'') = JBool True \<and>
          js_get v (js ''sync'') = wire sync"
  using assms
  by (auto simp: legacy_handleIngestion_def legacy_ingest_body_def
           split: if_splits option.splits dest: legacy_store_after_sync)

text \<open>
  Claim C5. The sync trigger always returns a value. With the sync configured, an
  upstream 429 or 409 gives \<open>{skipped: true, reason}\<close> with the cooldown reason; another
  status outside 200 to 299 gives \<open>{error: true, message}\<close> whose message ends with the
  upstream's error text; an exception of the network call gives \<open>{error: true, message}\<close>
  with the exception's message. An ingestion that has stored its blob answers with
  status 200 and \<open>success: true\<close>, carrying under \<open>sync\<close> whatever the trigger returned; and
  so does every ingestion in whose run the re-index endpoint was called.
\<close>

theorem sync_trigger_never_raises:
  "(\<exists>v. snd (triggerAutoRAGSync w e) = Inr v)
   \<and> (sync_configured e \<longrightarrow> http_fetch w (sync_url e) (sync_init e) = Inr r \<longrightarrow>
        (up_status r = 429 \<or> up_status r = 409) \<longrightarrow>
        snd (triggerAutoRAGSync w e)
          = Inr (JObj [(js ''skipped'', JBool True),
                       (js ''reason'',
                        JStr (js ''Sync is on cooldown (3-minute minimum between syncs)''))]))
   \<and> (sync_configured e \<longrightarrow> http_fetch w (sync_url e) (sync_init e) = Inr r \<longrightarrow>
        (up_status r < 200 \<or> 299 < up_status r) \<longrightarrow> up_status r \<noteq> 429 \<longrightarrow>
        up_status r \<noteq> 409 \<longrightarrow> up_text r = Inr t \<longrightarrow>
        snd (triggerAutoRAGSync w e)
          = Inr (JObj [(js ''error'', JBool True),
                       (js ''message'',
                        JStr (js ''Sync API error: '' @ digits (up_status r) @ js '' - '' @ t))]))
   \<and> (sync_configured e \<longrightarrow> http_fetch w (sync_url e) (sync_init e) = Inl ex \<longrightarrow>
        snd (triggerAutoRAGSync w e)
          = Inr (JObj [(js ''error'', JBool True), (js ''message'', JStr (message ex))]))
   \<and> (req_method req = js ''POST'' \<longrightarrow>
        (\<not> set_str (L_INGESTION_TOKEN e)
         \<or> req_authorization req = Some (js ''Bearer '' @ str_nc (L_INGESTION_TOKEN e) [])) \<longrightarrow>
        req_body req = Some b \<longrightarrow> js_get b (js ''path'') = JStr p \<longrightarrow> p \<noteq> [] \<longrightarrow>
        truthy (js_get b (js ''content'')) \<longrightarrow>
        key = (if startsWith p (js ''/'') then drop 1 p else p) \<longrightarrow>
        customMetadata (rt w) (js ''continuous-ingestion'') (now w) b = Inr md \<longrightarrow>
        bucket_put w key (js_get b (js ''content'')) (ingest_contentType (rt w) b key) md
          = Inr () \<longrightarrow>
        (\<exists>sync res v. snd (triggerAutoRAGSync w e) = Inr sync \<and>
           snd (legacy_handleIngestion w e req hs) = Inr res \<and>
           status res = 200 \<and> body res = Json v \<and>
           js_get v (js ''success'') = JBool True \<and>
           js_get v (js ''path'') = JStr key \<and>
           js_get v (js ''sync'') = wire sync))
   \<and> (Fetch u i \<in> set (fst (legacy_handleIngestion w e req hs)) \<longrightarrow>
        (\<exists>sync res v. snd (triggerAutoRAGSync w e) = Inr sync \<and>
           snd (legacy_handleIngestion w e req hs) = Inr res \<and>
           status res = 200 \<and> body res = Json v \<and>
           js_get v (js ''success'') = JBool True \<and>
           js_get v (js ''sync'') = wire sync))"
  using trigger_returns [of w e] trigger_cooldown [of e w r] trigger_failed [of e w r t]
    trigger_exception [of e w ex] ingestion_reports_success [of req e b p key w md hs]
    legacy_ingestion_after_sync [of u i w e req hs]
  by blast

text \<open>
  Claim C5, witness: the re-index endpoint answers 429, answers 500, and cannot be
  reached; and a note is ingested while the endpoint answers 500.
\<close>

theorem sync_trigger_never_raises_witness:
  "sync_configured ex_legacy_env
   \<and> snd (triggerAutoRAGSync ex_world ex_legacy_env)
       = Inr (JObj [(js ''skipped'', JBool True),
                    (js ''reason'',
                     JStr (js ''Sync is on cooldown (3-minute minimum between syncs)''))])
   \<and> snd (triggerAutoRAGSync ex_world_500 ex_legacy_env)
       = Inr (JObj [(js ''error'', JBool True),
                    (js ''message'', JStr (js ''Sync API error: 500 - index busy''))])
   \<and> snd (triggerAutoRAGSync ex_world_down ex_legacy_env)
       = Inr (JObj [(js ''error'', JBool True), (js ''message'', JStr (js ''network down''))])
   \<and> snd (legacy_handleIngestion ex_world_500 ex_legacy_env ingest_note []) =
        Inr \<lparr>status = 200, headers = [(js ''Content-Type'', js ''application/json'')],
             body = Json (JObj [(js ''success'', JBool True),
                                (js ''message'', JStr (js ''Document ingested successfully'')),
                                (js ''path'', JStr (js ''notes/a.md'')),
                                (js ''sync'',
                                 JObj [(js ''error'', JBool True),
                                       (js ''message'',
                                        JStr (js ''Sync API error: 500 - index busy''))])])\<rparr>
   \<and> wire (JObj [(js ''error'', JBool True),
                  (js ''message'', JStr (js ''Sync API error: 500 - index busy''))])
       = JObj [(js ''error'', JBool True),
               (js ''message'', JStr (js ''Sync API error: 500 - index busy''))]
   \<and> Fetch (sync_url ex_legacy_env) (sync_init ex_legacy_env)
       \<in> set (fst (legacy_handleIngestion ex_world_500 ex_legacy_env ingest_note []))
   \<and> status \<lparr>status = 200, headers = [(js ''Content-Type'', js ''application/json'')],
             body = Json (JObj [(js ''success'', JBool True),
                                (js ''message'', JStr (js ''Document ingested successfully'')),
                                (js ''path'', JStr (js ''notes/a.md'')),
                                (js ''sync'',
                                 JObj [(js ''error'', JBool True),
                                       (js ''message'',
                                        JStr (js ''Sync API error: 500 - index busy''))])])\<rparr>
       = 200"
proof -
  let ?b = "JObj [(js ''path'', JStr (js ''/notes/a.md'')), (js ''content'', JStr (js ''# A''))]"
  let ?f = "JObj [(js ''error'', JBool True),
                  (js ''message'', JStr (js ''Sync API error: 500 - index busy''))]"
  let ?md = "[(js ''source'', js ''continuous-ingestion''),
              (js ''timestamp'', js ''2025-01-01T00:00:00.000Z'')]"
  let ?res = "\<lparr>status = 200, headers = [(js ''Content-Type'', js ''application/json'')],
             body = Json (JObj [(js ''success'', JBool True),
                                (js ''message'', JStr (js ''Document ingested successfully'')),
                                (js ''path'', JStr (js ''notes/a.md'')),
                                (js ''sync'', ?f)])\<rparr>"
  have c: "sync_configured ex_legacy_env"
    by (simp add: sync_configured_def ex_legacy_env_def)
  have f1: "http_fetch ex_world (sync_url ex_legacy_env) (sync_init ex_legacy_env)
              = Inr ex_upstream_429"
    by (simp add: ex_world_def ex_upstream_429_def)
  have f2: "http_fetch ex_world_500 (sync_url ex_legacy_env) (sync_init ex_legacy_env)
              = Inr ex_upstream_500"
    by (simp add: ex_world_500_def ex_world_def ex_upstream_500_def)
  have f3: "http_fetch ex_world_down (sync_url ex_legacy_env) (sync_init ex_legacy_env)
              = Inl (Error (js ''network down''))"
    by (simp add: ex_world_down_def ex_world_def)
  have r1: "snd (triggerAutoRAGSync ex_world ex_legacy_env)
              = Inr (JObj [(js ''skipped'', JBool True),
                           (js ''reason'',
                            JStr (js ''Sync is on cooldown (3-minute minimum between syncs)''))])"
    using sync_trigger_never_raises [where w = ex_world and e = ex_legacy_env
        and r = ex_upstream_429] c f1
    by (simp add: ex_upstream_429_def)
  have r2: "snd (triggerAutoRAGSync ex_world_500 ex_legacy_env) = Inr ?f"
    using sync_trigger_never_raises [where w = ex_world_500 and e = ex_legacy_env
        and r = ex_upstream_500 and t = "js ''index busy''"] c f2
    by (simp add: ex_upstream_500_def digits.simps js_def)
  have r3: "snd (triggerAutoRAGSync ex_world_down ex_legacy_env)
              = Inr (JObj [(js ''error'', JBool True), (js ''message'', JStr (js ''network down''))])"
    using sync_trigger_never_raises [where w = ex_world_down and e = ex_legacy_env
        and ex = "Error (js ''network down'')"] c f3
    by simp
  have i: "req_method ingest_note = js ''POST''" "\<not> set_str (L_INGESTION_TOKEN ex_legacy_env)"
      "req_body ingest_note = Some ?b" "js_get ?b (js ''path'') = JStr (js ''/notes/a.md'')"
      "js ''/notes/a.md'' \<noteq> []" "truthy (js_get ?b (js ''content''))"
      "js ''notes/a.md'' = (if startsWith (js ''/notes/a.md'') (js ''/'')
                            then drop 1 (js ''/notes/a.md'') else js ''/notes/a.md'')"
      "customMetadata (rt ex_world_500) (js ''continuous-ingestion'') (now ex_world_500) ?b
         = Inr ?md"
      "bucket_put ex_world_500 (js ''notes/a.md'') (js_get ?b (js ''content''))
         (ingest_contentType (rt ex_world_500) ?b (js ''notes/a.md'')) ?md = Inr ()"
    by (simp_all add: ingest_note_def post_json_def ex_legacy_env_def ex_world_500_def
          ex_world_def customMetadata_def js_defs)
  have e: "snd (legacy_handleIngestion ex_world_500 ex_legacy_env ingest_note []) = Inr ?res"
    by (simp add: ex_world_500_def ex_defs ingest_note_def legacy_defs js_defs digits.simps)
  have "\<exists>sync res v. snd (triggerAutoRAGSync ex_world_500 ex_legacy_env) = Inr sync \<and>
           snd (legacy_handleIngestion ex_world_500 ex_legacy_env ingest_note []) = Inr res \<and>
           status res = 200 \<and> body res = Json v \<and>
           js_get v (js ''success'') = JBool True \<and>
           js_get v (js ''path'') = JStr (js ''notes/a.md'') \<and>
           js_get v (js ''sync'') = wire sync"
    using sync_trigger_never_raises [where w = ex_world_500 and e = ex_legacy_env
        and req = ingest_note and b = ?b and p = "js ''/notes/a.md''"
        and key = "js ''notes/a.md''" and md = ?md and hs = "[]"] i
    by blast
  with r2 e have r4: "wire ?f = ?f"
    by auto
  have g: "Fetch (sync_url ex_legacy_env) (sync_init ex_legacy_env)
             \<in> set (fst (legacy_handleIngestion ex_world_500 ex_legacy_env ingest_note []))"
    by (simp add: ex_world_500_def ex_defs ingest_note_def legacy_defs js_defs)
  have "\<exists>sync res v. snd (triggerAutoRAGSync ex_world_500 ex_legacy_env) = Inr sync \<and>
           snd (legacy_handleIngestion ex_world_500 ex_legacy_env ingest_note []) = Inr res \<and>
           status res = 200 \<and> body res = Json v \<and>
           js_get v (js ''success'') = JBool True \<and>
           js_get v (js ''sync'') = wire sync"
    using sync_trigger_never_raises [where w = ex_world_500 and e = ex_legacy_env
        and req = ingest_note and u = "sync_url ex_legacy_env" and i = "sync_init ex_legacy_env"
        and hs = "[]"] g
    by blast
  with e have r5: "status ?res = 200"
    by auto
  show ?thesis using c r1 r2 r3 e r4 g r5 by blast
qed

text \<open>An ingestion whose metadata do not print fails before anything is stored, and the
  trigger is not called.\<close>

lemma ingest_unprintable_fails:
  "legacy_fetch ex_world ex_legacy_env ingest_unprintable =
     ([], Inr \<lparr>status = 500,
               headers = [(js ''Access-Control-Allow-Origin'', js ''*''),
                          (js ''Access-Control-Allow-Methods'', js ''GET, POST, OPTIONS''),
                          (js ''Access-Control-Allow-Headers'', js ''Content-Type, Authorization''),
                          (js ''Content-Type'', js ''application/json'')],
               body = Json (JObj [(js ''error'', JStr (js ''Ingestion failed'')),
                                  (js ''details'',
                                   JStr (js ''Cannot convert object to primitive value''))])\<rparr>)"
  by (simp add: ex_defs ingest_unprintable_def legacy_defs js_defs)

subsection \<open>Errors of the tool-protocol endpoint\<close>

lemma method_of_object: "js_get rpc (js ''method'') = JStr m \<Longrightarrow> \<not> nullish rpc"
  by (cases rpc) auto

lemma wire_ident: "wire (nc v JNull) \<noteq> JUndefined"
  by (cases v) (simp_all add: nc_def wire_undefined)

text \<open>The two shapes of a response of the endpoint, as JSON texts.\<close>

lemma rpc_error_wire:
  "rpc_error (nc v JNull) hs code msg JUndefined =
     \<lparr>status = 200, headers = spread [(js ''Content-Type'', js ''application/json'')] hs,
      body = Json (JObj [(js ''jsonrpc'', JStr (js ''2.0'')), (js ''id'', wire (nc v JNull)),
                         (js ''error'', JObj [(js ''code'', JNum (Fin code)),
                                           (js ''message'', JStr msg)])])\<rparr>"
  by (simp add: rpc_error_def json_def wire_ident)

lemma server_error_wire:
  "server_error (nc v JNull) hs ex =
     \<lparr>status = 200, headers = spread [(js ''Content-Type'', js ''application/json'')] hs,
      body = Json (JObj [(js ''jsonrpc'', JStr (js ''2.0'')), (js ''id'', wire (nc v JNull)),
                         (js ''error'',
                          JObj [(js ''code'', JNum (Fin (- 32000))),
                                (js ''message'', JStr (js ''Server error'')),
                                (js ''data'',
                                 JObj [(js ''message'',
                                        JStr (if message ex \<noteq> [] then message ex
                                              else exn_name ex))])])])\<rparr>"
  by (simp add: server_error_def rpc_error_def json_def wire_ident exn_text_def)

lemma rpc_result_id:
  "status (rpc_result i hs result) = 200 \<and>
   (\<exists>v. body (rpc_result i hs result) = Json v \<and> js_get v (js ''id'') = wire i)"
  by (simp add: rpc_result_def json_def js_get_wire)

lemma rpc_error_id:
  "status (rpc_error i hs code msg data) = 200 \<and>
   (\<exists>v. body (rpc_error i hs code msg data) = Json v \<and> js_get v (js ''id'') = wire i)"
  by (simp add: rpc_error_def json_def js_get_wire)

lemma tools_call_id:
  "\<exists>res v. snd (tools_call w e rpc i hs) = Inr res \<and> status res = 200 \<and> body res = Json v
           \<and> js_get v (js ''id'') = wire i"
  using rpc_result_id [of i hs] rpc_error_id [of i hs]
  by (auto simp: tools_call_def Let_def server_error_def
           split: if_splits sum.splits prod.splits option.splits)

lemma tool_params_throws:
  assumes "toString_call r (js_or (opt_get args (js ''query'')) (JStr [])) = Inl ex
       \<or> (\<exists>s. toString_call r (js_or (opt_get args (js ''query'')) (JStr [])) = Inr s \<and> s \<noteq> []
            \<and> (js_Number r (nc (opt_get args (js ''topK'')) (JNum (Fin 6))) = Inl ex
               \<or> \<not> isl (js_Number r (nc (opt_get args (js ''topK'')) (JNum (Fin 6))))
                 \<and> js_Number r (nc (opt_get args (js ''threshold'')) (JNum (Fin (3 / 10))))
                     = Inl ex))"
  shows "tool_params r args = Inl ex"
  using assms by (auto simp: tool_params_def bnd_def split: sum.splits)

text \<open>
  Claim C6, as amended. For a \<open>POST\<close> whose body is a \<open>tools/call\<close> request, every response
  has status 200 and a JSON body. A tool name other than \<open>ask\<close> gives error -32601 when
  the name can be printed, and error -32000 when printing it throws. The name \<open>ask\<close>
  with an empty query gives error -32602. An exception thrown while the query, the
  count or the threshold is converted, or thrown by the backend, gives error -32000
  whose data carry the exception's message (the name of the exception where the message
  is empty). Every response carries the \<open>id\<close> of the request as \<open>JSON.stringify\<close> writes
  it: a string or a finite number unchanged, \<open>null\<close> when the request has no \<open>id\<close> or the
  \<open>id\<close> \<open>null\<close>.
\<close>

theorem tools_call_errors:
  assumes "req_method req = js ''POST''" and "req_body req = Some rpc"
    and "js_get rpc (js ''method'') = JStr (js ''tools/call'')"
    and "name = js_get (js_or (js_get rpc (js ''params'')) (JObj [])) (js ''name'')"
    and "args = js_get (js_or (js_get rpc (js ''params'')) (JObj [])) (js ''arguments'')"
    and "hs = spread [(js ''Content-Type'', js ''application/json'')]
                (getCorsHeaders (req_origin req) (ALLOWED_ORIGINS e))"
    and "i = wire (nc (js_get rpc (js ''id'')) JNull)"
    and "msg = (if message ex \<noteq> [] then message ex
                else case ex of SyntaxError m \<Rightarrow> js ''SyntaxError''
                     | TypeError m \<Rightarrow> js ''TypeError'' | Error m \<Rightarrow> js ''Error'')"
  shows
   "(name \<noteq> JStr (js ''ask'') \<longrightarrow> js_String (rt w) name = Inr s \<longrightarrow>
       NLWebMcp_fetch w e req =
         ([], Inr \<lparr>status = 200, headers = hs,
                   body = Json (JObj [(js ''jsonrpc'', JStr (js ''2.0'')), (js ''id'', i),
                                      (js ''error'',
                                       JObj [(js ''code'', JNum (Fin (- 32601))),
                                             (js ''message'',
                                              JStr (js ''Unknown tool: '' @ s))])])\<rparr>))
  \<and> (name \<noteq> JStr (js ''ask'') \<longrightarrow> js_String (rt w) name = Inl ex \<longrightarrow>
       NLWebMcp_fetch w e req =
         ([], Inr \<lparr>status = 200, headers = hs,
                   body = Json (JObj [(js ''jsonrpc'', JStr (js ''2.0'')), (js ''id'', i),
                                      (js ''error'',
                                       JObj [(js ''code'', JNum (Fin (- 32000))),
                                             (js ''message'', JStr (js ''Server error'')),
                                             (js ''data'',
                                              JObj [(js ''message'',
                                                     JStr msg)])])])\<rparr>))
  \<and> (name = JStr (js ''ask'') \<longrightarrow>
       toString_call (rt w) (js_or (opt_get args (js ''query'')) (JStr [])) = Inr [] \<longrightarrow>
       NLWebMcp_fetch w e req =
         ([], Inr \<lparr>status = 200, headers = hs,
                   body = Json (JObj [(js ''jsonrpc'', JStr (js ''2.0'')), (js ''id'', i),
                                      (js ''error'',
                                       JObj [(js ''code'', JNum (Fin (- 32602))),
                                             (js ''message'',
                                              JStr (js ''Missing 'query' parameter''))])])\<rparr>))
  \<and> (name = JStr (js ''ask'') \<longrightarrow>
       (toString_call (rt w) (js_or (opt_get args (js ''query'')) (JStr [])) = Inl ex
        \<or> (\<exists>q. toString_call (rt w) (js_or (opt_get args (js ''query'')) (JStr [])) = Inr q
               \<and> q \<noteq> []
               \<and> (js_Number (rt w) (nc (opt_get args (js ''topK'')) (JNum (Fin 6))) = Inl ex
                  \<or> \<not> isl (js_Number (rt w) (nc (opt_get args (js ''topK'')) (JNum (Fin 6))))
                    \<and> js_Number (rt w)
                          (nc (opt_get args (js ''threshold'')) (JNum (Fin (3 / 10))))
                        = Inl ex))) \<longrightarrow>
       NLWebMcp_fetch w e req =
         ([], Inr \<lparr>status = 200, headers = hs,
                   body = Json (JObj [(js ''jsonrpc'', JStr (js ''2.0'')), (js ''id'', i),
                                      (js ''error'',
                                       JObj [(js ''code'', JNum (Fin (- 32000))),
                                             (js ''message'', JStr (js ''Server error'')),
                                             (js ''data'',
                                              JObj [(js ''message'',
                                                     JStr msg)])])])\<rparr>))
  \<and> (fst (NLWebMcp_fetch w e req) = [AiSearch r sp] \<longrightarrow>
       autorag_aiSearch w r sp = Inl ex \<longrightarrow>
       snd (NLWebMcp_fetch w e req) =
         Inr \<lparr>status = 200, headers = hs,
              body = Json (JObj [(js ''jsonrpc'', JStr (js ''2.0'')), (js ''id'', i),
                                 (js ''error'',
                                  JObj [(js ''code'', JNum (Fin (- 32000))),
                                        (js ''message'', JStr (js ''Server error'')),
                                        (js ''data'',
                                         JObj [(js ''message'',
                                                JStr msg)])])])\<rparr>)
  \<and> (\<exists>res v. snd (NLWebMcp_fetch w e req) = Inr res \<and> status res = 200 \<and>
         body res = Json v \<and> js_get v (js ''id'') = i)
  \<and> (js_get rpc (js ''id'') = JStr t \<longrightarrow> i = JStr t)
  \<and> (js_get rpc (js ''id'') = JNum (Fin x) \<longrightarrow> i = JNum (Fin x))
  \<and> (nullish (js_get rpc (js ''id'')) \<longrightarrow> i = JNull)"
proof -
  let ?hs = "getCorsHeaders (req_origin req) (ALLOWED_ORIGINS e)"
  let ?i = "nc (js_get rpc (js ''id'')) JNull"
  let ?query = "toString_call (rt w) (js_or (opt_get args (js ''query'')) (JStr []))"
  have nn: "\<not> nullish rpc" using assms(3) by (rule method_of_object)
  have f: "NLWebMcp_fetch w e req = tools_call w e rpc ?i ?hs"
    using assms(1-3) nn by (simp add: NLWebMcp_fetch_def Let_def)
  have a: "name \<noteq> JStr (js ''ask'') \<Longrightarrow> js_String (rt w) name = Inr s \<Longrightarrow>
       tools_call w e rpc ?i ?hs =
         ([], Inr (rpc_error ?i ?hs (- 32601) (js ''Unknown tool: '' @ s) JUndefined))"
    by (simp add: tools_call_def Let_def assms(4))
  have b: "name \<noteq> JStr (js ''ask'') \<Longrightarrow> js_String (rt w) name = Inl ex \<Longrightarrow>
       tools_call w e rpc ?i ?hs = ([], Inr (server_error ?i ?hs ex))"
    by (simp add: tools_call_def Let_def assms(4))
  have c: "name = JStr (js ''ask'') \<Longrightarrow> ?query = Inr [] \<Longrightarrow>
       tools_call w e rpc ?i ?hs =
         ([], Inr (rpc_error ?i ?hs (- 32602) (js ''Missing 'query' parameter'') JUndefined))"
    by (simp add: tools_call_def Let_def assms(4,5) tool_params_def bnd_def)
  have d: "name = JStr (js ''ask'') \<Longrightarrow> tool_params (rt w) args = Inl ex \<Longrightarrow>
       tools_call w e rpc ?i ?hs = ([], Inr (server_error ?i ?hs ex))"
    by (simp add: tools_call_def Let_def assms(4,5))
  have g: "fst (tools_call w e rpc ?i ?hs) = [AiSearch r sp] \<Longrightarrow>
       autorag_aiSearch w r sp = Inl ex \<Longrightarrow>
       snd (tools_call w e rpc ?i ?hs) = Inr (server_error ?i ?hs ex)"
    by (auto simp: tools_call_def Let_def aiSearch_def
             split: if_splits sum.splits option.splits)
  have h: "\<exists>res v. snd (tools_call w e rpc ?i ?hs) = Inr res \<and> status res = 200
                    \<and> body res = Json v \<and> js_get v (js ''id'') = wire ?i"
    by (rule tools_call_id)
  have i1: "js_get rpc (js ''id'') = JStr t \<Longrightarrow> wire ?i = JStr t"
    and i2: "js_get rpc (js ''id'') = JNum (Fin x) \<Longrightarrow> wire ?i = JNum (Fin x)"
    and i3: "nullish (js_get rpc (js ''id'')) \<Longrightarrow> wire ?i = JNull"
    by (simp_all add: nc_def)
  have m: "(if message ex \<noteq> [] then message ex else exn_name ex) = msg"
    unfolding assms(8) by (cases ex) simp_all
  show ?thesis
    unfolding f assms(6,7)
    using a b c d [OF _ tool_params_throws [of "rt w" args ex]] g h i1 i2 i3
    by (simp add: rpc_error_wire server_error_wire m)
qed

text \<open>
  Claim C6, witness: a call of the unknown tool \<open>delete\<close>, a call whose tool name does
  not print, a call of \<open>ask\<close> without a query, a call of \<open>ask\<close> whose count does not
  convert, and a call of \<open>ask\<close> while the backend throws; each request has the id 7.
\<close>

theorem tools_call_errors_witness:
  "NLWebMcp_fetch ex_world ex_env (post_json (js ''/mcp'') (Some rpc_unknown_tool)) =
     ([], Inr \<lparr>status = 200,
               headers = spread [(js ''Content-Type'', js ''application/json'')]
                           (getCorsHeaders None None),
               body = Json (JObj [(js ''jsonrpc'', JStr (js ''2.0'')), (js ''id'', JNum (Fin 7)),
                                  (js ''error'',
                                   JObj [(js ''code'', JNum (Fin (- 32601))),
                                         (js ''message'', JStr (js ''Unknown tool: delete''))])])\<rparr>)
   \<and> NLWebMcp_fetch ex_world ex_env (post_json (js ''/mcp'') (Some rpc_unprintable_list)) =
     ([], Inr \<lparr>status = 200,
               headers = spread [(js ''Content-Type'', js ''application/json'')]
                           (getCorsHeaders None None),
               body = Json (JObj [(js ''jsonrpc'', JStr (js ''2.0'')), (js ''id'', JNum (Fin 7)),
                                  (js ''error'',
                                   JObj [(js ''code'', JNum (Fin (- 32000))),
                                         (js ''message'', JStr (js ''Server error'')),
                                         (js ''data'',
                                          JObj [(js ''message'',
                                                 JStr (js ''Cannot convert object to primitive value''))])])])\<rparr>)
   \<and> NLWebMcp_fetch ex_world ex_env (post_json (js ''/mcp'') (Some rpc_no_query)) =
     ([], Inr \<lparr>status = 200,
               headers = spread [(js ''Content-Type'', js ''application/json'')]
                           (getCorsHeaders None None),
               body = Json (JObj [(js ''jsonrpc'', JStr (js ''2.0'')), (js ''id'', JNum (Fin 7)),
                                  (js ''error'',
                                   JObj [(js ''code'', JNum (Fin (- 32602))),
                                         (js ''message'',
                                          JStr (js ''Missing 'query' parameter''))])])\<rparr>)
   \<and> NLWebMcp_fetch ex_world ex_env (post_json (js ''/mcp'') (Some rpc_unprintable_topK)) =
     ([], Inr \<lparr>status = 200,
               headers = spread [(js ''Content-Type'', js ''application/json'')]
                           (getCorsHeaders None None),
               body = Json (JObj [(js ''jsonrpc'', JStr (js ''2.0'')), (js ''id'', JNum (Fin 7)),
                                  (js ''error'',
                                   JObj [(js ''code'', JNum (Fin (- 32000))),
                                         (js ''message'', JStr (js ''Server error'')),
                                         (js ''data'',
                                          JObj [(js ''message'',
                                                 JStr (js ''Cannot convert object to primitive value''))])])])\<rparr>)
   \<and> fst (NLWebMcp_fetch ex_world_ai_down ex_env (post_json (js ''/mcp'') (Some rpc_ask)))
       = [AiSearch (js ''docs'') sent_ask]
   \<and> snd (NLWebMcp_fetch ex_world_ai_down ex_env (post_json (js ''/mcp'') (Some rpc_ask))) =
       Inr \<lparr>status = 200,
            headers = spread [(js ''Content-Type'', js ''application/json'')]
                        (getCorsHeaders None None),
            body = Json (JObj [(js ''jsonrpc'', JStr (js ''2.0'')), (js ''id'', JNum (Fin 7)),
                               (js ''error'',
                                JObj [(js ''code'', JNum (Fin (- 32000))),
                                      (js ''message'', JStr (js ''Server error'')),
                                      (js ''data'',
                                       JObj [(js ''message'',
                                              JStr (js ''backend unavailable''))])])])\<rparr>"
proof -
  let ?u = "post_json (js ''/mcp'') (Some rpc_unknown_tool)"
  let ?l = "post_json (js ''/mcp'') (Some rpc_unprintable_list)"
  let ?n = "post_json (js ''/mcp'') (Some rpc_no_query)"
  let ?k = "post_json (js ''/mcp'') (Some rpc_unprintable_topK)"
  let ?a = "post_json (js ''/mcp'') (Some rpc_ask)"
  let ?hs = "spread [(js ''Content-Type'', js ''application/json'')] (getCorsHeaders None None)"
  let ?t = "TypeError (js ''Cannot convert object to primitive value'')"
  have u: "req_method ?u = js ''POST''" "req_body ?u = Some rpc_unknown_tool"
      "js_get rpc_unknown_tool (js ''method'') = JStr (js ''tools/call'')"
      "JStr (js ''delete'')
         = js_get (js_or (js_get rpc_unknown_tool (js ''params'')) (JObj [])) (js ''name'')"
      "JObj [] = js_get (js_or (js_get rpc_unknown_tool (js ''params'')) (JObj []))
                   (js ''arguments'')"
      "?hs = spread [(js ''Content-Type'', js ''application/json'')]
               (getCorsHeaders (req_origin ?u) (ALLOWED_ORIGINS ex_env))"
      "JNum (Fin 7) = wire (nc (js_get rpc_unknown_tool (js ''id'')) JNull)"
    by (simp_all add: post_json_def rpc_unknown_tool_def rpc_call_def js_or_def nc_def ex_env_def)
  have l: "req_method ?l = js ''POST''" "req_body ?l = Some rpc_unprintable_list"
      "js_get rpc_unprintable_list (js ''method'') = JStr (js ''tools/call'')"
      "JArr [JStr (js ''ask''), JObj [(js ''toString'', JBool False)]]
         = js_get (js_or (js_get rpc_unprintable_list (js ''params'')) (JObj [])) (js ''name'')"
      "JUndefined = js_get (js_or (js_get rpc_unprintable_list (js ''params'')) (JObj []))
                      (js ''arguments'')"
      "?hs = spread [(js ''Content-Type'', js ''application/json'')]
               (getCorsHeaders (req_origin ?l) (ALLOWED_ORIGINS ex_env))"
      "JNum (Fin 7) = wire (nc (js_get rpc_unprintable_list (js ''id'')) JNull)"
    by (simp_all add: post_json_def rpc_unprintable_list_def rpc_call_def js_or_def nc_def
          ex_env_def)
  have n: "req_method ?n = js ''POST''" "req_body ?n = Some rpc_no_query"
      "js_get rpc_no_query (js ''method'') = JStr (js ''tools/call'')"
      "JStr (js ''ask'')
         = js_get (js_or (js_get rpc_no_query (js ''params'')) (JObj [])) (js ''name'')"
      "JObj [] = js_get (js_or (js_get rpc_no_query (js ''params'')) (JObj []))
                   (js ''arguments'')"
      "?hs = spread [(js ''Content-Type'', js ''application/json'')]
               (getCorsHeaders (req_origin ?n) (ALLOWED_ORIGINS ex_env))"
      "JNum (Fin 7) = wire (nc (js_get rpc_no_query (js ''id'')) JNull)"
    by (simp_all add: post_json_def rpc_no_query_def rpc_call_def js_or_def nc_def ex_env_def)
  have k: "req_method ?k = js ''POST''" "req_body ?k = Some rpc_unprintable_topK"
      "js_get rpc_unprintable_topK (js ''method'') = JStr (js ''tools/call'')"
      "JStr (js ''ask'')
         = js_get (js_or (js_get rpc_unprintable_topK (js ''params'')) (JObj [])) (js ''name'')"
      "JObj [(js ''query'', JStr (js ''plugins'')), (js ''topK'', JObj [(js ''toString'', JNull)])]
         = js_get (js_or (js_get rpc_unprintable_topK (js ''params'')) (JObj []))
             (js ''arguments'')"
      "?hs = spread [(js ''Content-Type'', js ''application/json'')]
               (getCorsHeaders (req_origin ?k) (ALLOWED_ORIGINS ex_env))"
      "JNum (Fin 7) = wire (nc (js_get rpc_unprintable_topK (js ''id'')) JNull)"
    by (simp_all add: post_json_def rpc_unprintable_topK_def rpc_call_def js_or_def nc_def
          ex_env_def)
  have a: "req_method ?a = js ''POST''" "req_body ?a = Some rpc_ask"
      "js_get rpc_ask (js ''method'') = JStr (js ''tools/call'')"
      "JStr (js ''ask'')
         = js_get (js_or (js_get rpc_ask (js ''params'')) (JObj [])) (js ''name'')"
      "JObj [(js ''query'', JStr (js ''plugins''))]
         = js_get (js_or (js_get rpc_ask (js ''params'')) (JObj [])) (js ''arguments'')"
      "?hs = spread [(js ''Content-Type'', js ''application/json'')]
               (getCorsHeaders (req_origin ?a) (ALLOWED_ORIGINS ex_env))"
      "JNum (Fin 7) = wire (nc (js_get rpc_ask (js ''id'')) JNull)"
    by (simp_all add: post_json_def rpc_ask_def rpc_call_def js_or_def nc_def ex_env_def)
  have r1: "NLWebMcp_fetch ex_world ex_env ?u =
     ([], Inr \<lparr>status = 200, headers = ?hs,
               body = Json (JObj [(js ''jsonrpc'', JStr (js ''2.0'')), (js ''id'', JNum (Fin 7)),
                                  (js ''error'',
                                   JObj [(js ''code'', JNum (Fin (- 32601))),
                                         (js ''message'', JStr (js ''Unknown tool: delete''))])])\<rparr>)"
    using tools_call_errors [OF u refl, where w = ex_world and s = "js ''delete''"]
    by (simp add: js_append)
  have r2: "NLWebMcp_fetch ex_world ex_env ?l =
     ([], Inr \<lparr>status = 200, headers = ?hs,
               body = Json (JObj [(js ''jsonrpc'', JStr (js ''2.0'')), (js ''id'', JNum (Fin 7)),
                                  (js ''error'',
                                   JObj [(js ''code'', JNum (Fin (- 32000))),
                                         (js ''message'', JStr (js ''Server error'')),
                                         (js ''data'',
                                          JObj [(js ''message'',
                                                 JStr (js ''Cannot convert object to primitive value''))])])])\<rparr>)"
    using tools_call_errors [OF l refl, where w = ex_world and ex = ?t]
    by simp
  have r3: "NLWebMcp_fetch ex_world ex_env ?n =
     ([], Inr \<lparr>status = 200, headers = ?hs,
               body = Json (JObj [(js ''jsonrpc'', JStr (js ''2.0'')), (js ''id'', JNum (Fin 7)),
                                  (js ''error'',
                                   JObj [(js ''code'', JNum (Fin (- 32602))),
                                         (js ''message'',
                                          JStr (js ''Missing 'query' parameter''))])])\<rparr>)"
    using tools_call_errors [OF n refl, where w = ex_world]
    by (simp add: js_or_def opt_get_def toString_call_def)
  have r4: "NLWebMcp_fetch ex_world ex_env ?k =
     ([], Inr \<lparr>status = 200, headers = ?hs,
               body = Json (JObj [(js ''jsonrpc'', JStr (js ''2.0'')), (js ''id'', JNum (Fin 7)),
                                  (js ''error'',
                                   JObj [(js ''code'', JNum (Fin (- 32000))),
                                         (js ''message'', JStr (js ''Server error'')),
                                         (js ''data'',
                                          JObj [(js ''message'',
                                                 JStr (js ''Cannot convert object to primitive value''))])])])\<rparr>)"
    using tools_call_errors [OF k refl, where w = ex_world and ex = ?t]
    by (simp add: js_or_def opt_get_def toString_call_def nc_def)
  have t: "fst (NLWebMcp_fetch ex_world_ai_down ex_env ?a) = [AiSearch (js ''docs'') sent_ask]"
    by (simp add: ex_world_ai_down_def ex_defs rpc_ask_def rpc_call_def sent_ask_def
          NLWebMcp_fetch_def tools_call_def tool_params_def aiSearch_def clamp_topK_def
          clamp_threshold_def js_defs)
  have d: "autorag_aiSearch ex_world_ai_down (js ''docs'') sent_ask
             = Inl (Error (js ''backend unavailable''))"
    by (simp add: ex_world_ai_down_def ex_world_def)
  have r5: "snd (NLWebMcp_fetch ex_world_ai_down ex_env ?a) =
       Inr \<lparr>status = 200, headers = ?hs,
            body = Json (JObj [(js ''jsonrpc'', JStr (js ''2.0'')), (js ''id'', JNum (Fin 7)),
                               (js ''error'',
                                JObj [(js ''code'', JNum (Fin (- 32000))),
                                      (js ''message'', JStr (js ''Server error'')),
                                      (js ''data'',
                                       JObj [(js ''message'',
                                              JStr (js ''backend unavailable''))])])])\<rparr>"
    using tools_call_errors [OF a refl, where w = ex_world_ai_down
        and ex = "Error (js ''backend unavailable'')" and r = "js ''docs''" and sp = sent_ask] t d
    by simp
  show ?thesis using r1 r2 r3 r4 t r5 by blast
qed

text \<open>
  Claim C6, counterexample: the tool name \<open>{"toString": null}\<close> is not \<open>ask\<close>, and the
  answer is error -32000, not -32601; and the id \<open>1e999\<close> comes back as \<open>null\<close>.
\<close>

theorem tools_call_unprintable_name:
  "js_get (js_or (js_get rpc_unprintable_tool (js ''params'')) (JObj [])) (js ''name'')
     \<noteq> JStr (js ''ask'')
   \<and> NLWebMcp_fetch ex_world ex_env (post_json (js ''/mcp'') (Some rpc_unprintable_tool)) =
     ([], Inr \<lparr>status = 200,
               headers = [(js ''Content-Type'', js ''application/json''),
                          (js ''Access-Control-Allow-Origin'', js ''*''),
                          (js ''Access-Control-Allow-Headers'',
                           js ''Content-Type, Authorization, Accept''),
                          (js ''Access-Control-Allow-Methods'', js ''GET, POST, OPTIONS'')],
               body = Json (JObj [(js ''jsonrpc'', JStr (js ''2.0'')), (js ''id'', JNum (Fin 7)),
                                  (js ''error'',
                                   JObj [(js ''code'', JNum (Fin (- 32000))),
                                         (js ''message'', JStr (js ''Server error'')),
                                         (js ''data'',
                                          JObj [(js ''message'',
                                                 JStr (js ''Cannot convert object to primitive value''))])])])\<rparr>)
   \<and> js_get rpc_infinite_id (js ''id'') = JNum PosInf
   \<and> NLWebMcp_fetch ex_world ex_env (post_json (js ''/mcp'') (Some rpc_infinite_id)) =
     ([], Inr \<lparr>status = 200,
               headers = [(js ''Content-Type'', js ''application/json''),
                          (js ''Access-Control-Allow-Origin'', js ''*''),
                          (js ''Access-Control-Allow-Headers'',
                           js ''Content-Type, Authorization, Accept''),
                          (js ''Access-Control-Allow-Methods'', js ''GET, POST, OPTIONS'')],
               body = Json (JObj [(js ''jsonrpc'', JStr (js ''2.0'')), (js ''id'', JNull),
                                  (js ''error'',
                                   JObj [(js ''code'', JNum (Fin (- 32601))),
                                         (js ''message'', JStr (js ''Unknown tool: delete''))])])\<rparr>)"
  by (simp add: ex_defs rpc_unprintable_tool_def rpc_infinite_id_def rpc_call_def worker_defs
        js_defs)

subsection \<open>No documents, no generation\<close>

lemma ask_external_search:
  "Search r sp \<in> set (fst (ask_external w e req q hs)) \<Longrightarrow> autorag_search w r sp = Inr [] \<Longrightarrow>
   r = RAG_ID e \<and> sp_query sp = q_query q \<and>
   ask_external w e req q hs = ([Search r sp], Inr (json (no_relevant (q_query q)) 200 hs))"
  by (auto simp: ask_external_def Let_def split: sum.splits if_splits)

lemma ask_managed_no_search: "Search r sp \<notin> set (fst (ask_managed w e q hs))"
  by (auto simp: ask_managed_def aiSearch_def Let_def split: sum.splits)

lemma handleAsk_search:
  "Search r sp \<in> set (fst (handleAsk w e req hs)) \<Longrightarrow> autorag_search w r sp = Inr [] \<Longrightarrow>
   handleAsk w e req hs = ([Search r sp], Inr (json (no_relevant (sp_query sp)) 200 hs))"
  unfolding handleAsk_def
  by (auto simp: ask_managed_no_search split: if_splits sum.splits dest: ask_external_search)

lemma tools_call_no_search: "Search r sp \<notin> set (fst (tools_call w e rpc i hs))"
  by (auto simp: tools_call_def aiSearch_def Let_def split: if_splits sum.splits option.splits)

lemma NLWebMcp_no_search: "Search r sp \<notin> set (fst (NLWebMcp_fetch w e req))"
  by (auto simp: NLWebMcp_fetch_def tools_call_no_search Let_def split: if_splits sum.splits)

lemma ingest_store_no_search: "Search r sp \<notin> set (fst (ingest_store w b hs))"
  by (auto simp: ingest_store_def Let_def split: sum.splits)

lemma handleIngestion_no_search: "Search r sp \<notin> set (fst (handleIngestion w e req hs))"
  by (auto simp: handleIngestion_def ingest_body_def ingest_store_no_search
           split: if_splits option.splits)



subsection \<open>The token check\<close>

lemma auth_rejected_iff: "auth_rejected t h \<longleftrightarrow> h \<noteq> Some (js ''Bearer '' @ t)"
  by (auto simp: auth_rejected_def split: option.splits)

lemma ingest_store_not_401: "snd (ingest_store w b hs) = Inr res \<Longrightarrow> status res \<noteq> 401"
  by (auto simp: ingest_store_def Let_def ingestion_failed_def json_def split: sum.splits)

lemma ingest_body_not_401: "snd (ingest_body w e req hs) = Inr res \<Longrightarrow> status res \<noteq> 401"
  by (auto simp: ingest_body_def json_def split: option.splits if_splits
           dest: ingest_store_not_401)

lemma legacy_ingest_store_not_401:
  "snd (legacy_ingest_store w e b hs) = Inr res \<Longrightarrow> status res \<noteq> 401"
  by (auto simp: legacy_ingest_store_def Let_def legacy_ingestion_failed_def legacy_json_def
           split: sum.splits prod.splits)

lemma legacy_ingest_body_not_401:
  "snd (legacy_ingest_body w e req hs) = Inr res \<Longrightarrow> status res \<noteq> 401"
  by (auto simp: legacy_ingest_body_def legacy_json_def split: option.splits if_splits
           dest: legacy_ingest_store_not_401)

lemma sync_body_not_401: "snd (sync_body w e hs) = Inr res \<Longrightarrow> status res \<noteq> 401"
  by (auto simp: sync_body_def legacy_json_def split: sum.splits prod.splits)

lemma render_store_not_401:
  "snd (render_store w e b hostname href hs) = Inr res \<Longrightarrow> status res \<noteq> 401"
  by (auto simp: render_store_def Let_def render_failed_def legacy_json_def
           split: sum.splits prod.splits)

lemma render_body_not_401: "snd (render_body w e req hs) = Inr res \<Longrightarrow> status res \<noteq> 401"
  by (auto simp: render_body_def Let_def legacy_json_def
           split: option.splits if_splits prod.splits sum.splits dest: render_store_not_401)

text \<open>
  Claim C8. For a \<open>POST\<close> to an ingest, render-ingest or sync handler: when a token is
  configured, a request whose \<open>Authorization\<close> header is not exactly \<open>Bearer\<close> followed by
  the token (no header, another scheme, another token) gets one and the same response,
  401 \<open>Unauthorized\<close>, and nothing is called; when no token is configured, the handler
  answers as it would without the header, and never with 401.
\<close>

theorem auth_gate:
  assumes "req_method req = js ''POST''"
  shows
   "(INGESTION_TOKEN e = Some t \<longrightarrow> t \<noteq> [] \<longrightarrow>
       req_authorization req \<noteq> Some (js ''Bearer '' @ t) \<longrightarrow>
       handleIngestion w e req hs = ([], Inr (unauthorized hs)))
  \<and> (L_INGESTION_TOKEN le = Some t \<longrightarrow> t \<noteq> [] \<longrightarrow>
       req_authorization req \<noteq> Some (js ''Bearer '' @ t) \<longrightarrow>
       legacy_handleIngestion w le req hs = ([], Inr (unauthorized hs)) \<and>
       handleRenderAndIngest w le req hs = ([], Inr (unauthorized hs)) \<and>
       handleSync w le req hs = ([], Inr (unauthorized hs)))
  \<and> (\<not> set_str (INGESTION_TOKEN e) \<longrightarrow>
       handleIngestion w e req hs = ingest_body w e (req\<lparr>req_authorization := None\<rparr>) hs \<and>
       (\<forall>res. snd (handleIngestion w e req hs) = Inr res \<longrightarrow> status res \<noteq> 401))
  \<and> (\<not> set_str (L_INGESTION_TOKEN le) \<longrightarrow>
       legacy_handleIngestion w le req hs
         = legacy_ingest_body w le (req\<lparr>req_authorization := None\<rparr>) hs \<and>
       handleRenderAndIngest w le req hs
         = render_body w le (req\<lparr>req_authorization := None\<rparr>) hs \<and>
       handleSync w le req hs = sync_body w le hs \<and>
       (\<forall>res. snd (legacy_handleIngestion w le req hs) = Inr res \<longrightarrow> status res \<noteq> 401) \<and>
       (\<forall>res. snd (handleRenderAndIngest w le req hs) = Inr res \<longrightarrow> status res \<noteq> 401) \<and>
       (\<forall>res. snd (handleSync w le req hs) = Inr res \<longrightarrow> status res \<noteq> 401))"
proof (intro conjI impI allI)
  assume "INGESTION_TOKEN e = Some t" "t \<noteq> []"
    "req_authorization req \<noteq> Some (js ''Bearer '' @ t)"
  with assms show "handleIngestion w e req hs = ([], Inr (unauthorized hs))"
    by (simp add: handleIngestion_def auth_rejected_iff)
next
  assume "L_INGESTION_TOKEN le = Some t" "t \<noteq> []"
    "req_authorization req \<noteq> Some (js ''Bearer '' @ t)"
  with assms show "legacy_handleIngestion w le req hs = ([], Inr (unauthorized hs))"
    by (simp add: legacy_handleIngestion_def auth_rejected_iff)
next
  assume "L_INGESTION_TOKEN le = Some t" "t \<noteq> []"
    "req_authorization req \<noteq> Some (js ''Bearer '' @ t)"
  with assms show "handleSync w le req hs = ([], Inr (unauthorized hs))"
    by (simp add: handleSync_def auth_rejected_iff)
next
  assume "L_INGESTION_TOKEN le = Some t" "t \<noteq> []"
    "req_authorization req \<noteq> Some (js ''Bearer '' @ t)"
  with assms show "handleRenderAndIngest w le req hs = ([], Inr (unauthorized hs))"
    by (simp add: handleRenderAndIngest_def auth_rejected_iff)
next
  assume n: "\<not> set_str (INGESTION_TOKEN e)"
  have b: "ingest_body w e (req\<lparr>req_authorization := None\<rparr>) hs = ingest_body w e req hs"
    by (simp add: ingest_body_def)
  from n assms
  show "handleIngestion w e req hs = ingest_body w e (req\<lparr>req_authorization := None\<rparr>) hs"
    by (simp add: handleIngestion_def b)
  fix res
  assume "snd (handleIngestion w e req hs) = Inr res"
  with n assms show "status res \<noteq> 401"
    by (auto simp: handleIngestion_def dest: ingest_body_not_401)
next
  assume n: "\<not> set_str (L_INGESTION_TOKEN le)"
  have b: "legacy_ingest_body w le (req\<lparr>req_authorization := None\<rparr>) hs
             = legacy_ingest_body w le req hs"
    by (simp add: legacy_ingest_body_def)
  from n assms
  show "legacy_handleIngestion w le req hs
          = legacy_ingest_body w le (req\<lparr>req_authorization := None\<rparr>) hs"
    by (simp add: legacy_handleIngestion_def b)
  from n assms show "handleSync w le req hs = sync_body w le hs"
    by (simp add: handleSync_def)
  have r: "render_body w le (req\<lparr>req_authorization := None\<rparr>) hs = render_body w le req hs"
    by (simp add: render_body_def)
  from n assms
  show "handleRenderAndIngest w le req hs
          = render_body w le (req\<lparr>req_authorization := None\<rparr>) hs"
    by (simp add: handleRenderAndIngest_def r)
  { fix res
    assume "snd (handleRenderAndIngest w le req hs) = Inr res"
    with n assms show "status res \<noteq> 401"
      by (auto simp: handleRenderAndIngest_def dest: render_body_not_401) }
  { fix res
    assume "snd (legacy_handleIngestion w le req hs) = Inr res"
    with n assms show "status res \<noteq> 401"
      by (auto simp: legacy_handleIngestion_def dest: legacy_ingest_body_not_401) }
  { fix res
    assume "snd (handleSync w le req hs) = Inr res"
    with n assms show "status res \<noteq> 401"
      by (auto simp: handleSync_def dest: sync_body_not_401) }
qed

text \<open>
  Claim C8, witness: with the token \<open>s3cret\<close> configured, a request without header,
  one with the scheme \<open>Basic\<close> and one with a wrong token get the same 401; without a
  configured token a request with a wrong token is handled as the one without header.
\<close>

theorem auth_gate_witness:
  "handleIngestion ex_world ex_env_token ingest_note [] = ([], Inr (unauthorized []))
   \<and> handleIngestion ex_world ex_env_token ingest_basic [] = ([], Inr (unauthorized []))
   \<and> handleIngestion ex_world ex_env_token ingest_wrong [] = ([], Inr (unauthorized []))
   \<and> legacy_handleIngestion ex_world ex_legacy_env_token ingest_wrong []
       = ([], Inr (unauthorized []))
   \<and> handleSync ex_world ex_legacy_env_token ingest_basic [] = ([], Inr (unauthorized []))
   \<and> handleIngestion ex_world ex_env ingest_wrong [] = ingest_body ex_world ex_env ingest_note []
   \<and> legacy_handleIngestion ex_world ex_legacy_env ingest_wrong []
       = legacy_ingest_body ex_world ex_legacy_env ingest_note []
   \<and> handleSync ex_world ex_legacy_env ingest_wrong [] = sync_body ex_world ex_legacy_env []"
proof -
  have m: "req_method ingest_note = js ''POST''" "req_method ingest_basic = js ''POST''"
      "req_method ingest_wrong = js ''POST''"
    by (simp_all add: ingest_note_def ingest_basic_def ingest_wrong_def post_json_def)
  have a: "req_authorization ingest_note = None"
      "req_authorization ingest_basic = Some (js ''Basic s3cret'')"
      "req_authorization ingest_wrong = Some (js ''Bearer guess'')"
    by (simp_all add: ingest_note_def ingest_basic_def ingest_wrong_def post_json_def)
  have t: "INGESTION_TOKEN ex_env_token = Some (js ''s3cret'')"
      "L_INGESTION_TOKEN ex_legacy_env_token = Some (js ''s3cret'')"
      "\<not> set_str (INGESTION_TOKEN ex_env)" "\<not> set_str (L_INGESTION_TOKEN ex_legacy_env)"
    by (simp_all add: ex_env_token_def ex_legacy_env_token_def ex_env_def ex_legacy_env_def)
  have e: "ingest_wrong\<lparr>req_authorization := None\<rparr> = ingest_note"
    by (simp add: ingest_wrong_def ingest_note_def post_json_def)
  have r1: "handleIngestion ex_world ex_env_token ingest_note [] = ([], Inr (unauthorized []))"
    using auth_gate [OF m(1), of ex_env_token "js ''s3cret''" ex_world "[]" ex_legacy_env_token]
      a(1) t(1)
    by simp
  have r2: "handleIngestion ex_world ex_env_token ingest_basic [] = ([], Inr (unauthorized []))"
    using auth_gate [OF m(2), of ex_env_token "js ''s3cret''" ex_world "[]" ex_legacy_env_token]
      a(2) t(1)
    by (simp add: js_append)
  have r3: "handleIngestion ex_world ex_env_token ingest_wrong [] = ([], Inr (unauthorized []))"
    using auth_gate [OF m(3), of ex_env_token "js ''s3cret''" ex_world "[]" ex_legacy_env_token]
      a(3) t(1)
    by (simp add: js_append)
  have r4: "legacy_handleIngestion ex_world ex_legacy_env_token ingest_wrong []
              = ([], Inr (unauthorized []))"
    using auth_gate [OF m(3), of ex_env_token "js ''s3cret''" ex_world "[]" ex_legacy_env_token]
      a(3) t(2)
    by (simp add: js_append)
  have r5: "handleSync ex_world ex_legacy_env_token ingest_basic [] = ([], Inr (unauthorized []))"
    using auth_gate [OF m(2), of ex_env_token "js ''s3cret''" ex_world "[]" ex_legacy_env_token]
      a(2) t(2)
    by (simp add: js_append)
  have r6: "handleIngestion ex_world ex_env ingest_wrong []
              = ingest_body ex_world ex_env ingest_note []"
    and r7: "legacy_handleIngestion ex_world ex_legacy_env ingest_wrong []
              = legacy_ingest_body ex_world ex_legacy_env ingest_note []"
    and r8: "handleSync ex_world ex_legacy_env ingest_wrong [] = sync_body ex_world ex_legacy_env []"
    using auth_gate [OF m(3), of ex_env "js ''s3cret''" ex_world "[]" ex_legacy_env] t(3,4)
    by (simp_all add: e)
  show ?thesis using r1 r2 r3 r4 r5 r6 r7 r8 by blast
qed

subsection \<open>Further properties\<close>

text \<open>
  Property X1. In the external-LLM mode a search with a query calls the backend for
  retrieval only, with the requested result count and score threshold as they are:
  this path does not clamp.
\<close>

theorem external_retrieval_unclamped:
  assumes "set_str (USE_EXTERNAL_LLM e)" and "ask_invocation w e req = Inr q"
    and "q_query q \<noteq> []" and "req_method req = js ''POST'' \<or> req_method req = js ''GET''"
  shows "Search (RAG_ID e)
           \<lparr>sp_query = q_query q, sp_rewrite_query = q_rewrite q,
            sp_max_num_results = q_topK q, sp_score_threshold = q_threshold q,
            sp_stream = False\<rparr> \<in> set (fst (handleAsk w e req hs))"
  using assms
  by (auto simp: handleAsk_def ask_external_def Let_def split: sum.splits)

text \<open>
  Property X1, witness: 999 results above threshold 2 are asked of the backend.
\<close>

theorem external_retrieval_unclamped_witness:
  "set_str (USE_EXTERNAL_LLM ex_env_llm)
   \<and> ask_invocation ex_world ex_env_llm ask_999 =
       Inr \<lparr>q_query = js ''plugins'', q_topK = Fin 999, q_threshold = Fin 2, q_stream = False,
            q_rewrite = True\<rparr>
   \<and> Search (js ''docs'')
        \<lparr>sp_query = js ''plugins'', sp_rewrite_query = True, sp_max_num_results = Fin 999,
         sp_score_threshold = Fin 2, sp_stream = False\<rparr>
       \<in> set (fst (handleAsk ex_world ex_env_llm ask_999 []))
   \<and> \<not> in_range 1 50 (Fin 999) \<and> \<not> in_range 0 1 (Fin 2)"
proof -
  let ?q = "\<lparr>q_query = js ''plugins'', q_topK = Fin 999, q_threshold = Fin 2, q_stream = False,
            q_rewrite = True\<rparr>"
  have u: "set_str (USE_EXTERNAL_LLM ex_env_llm)"
    by (simp add: ex_env_llm_def ex_env_def)
  have i: "ask_invocation ex_world ex_env_llm ask_999 = Inr ?q"
    by (simp add: ex_env_llm_def ex_defs ask_999_def worker_defs js_defs)
  have m: "req_method ask_999 = js ''POST'' \<or> req_method ask_999 = js ''GET''"
    by (simp add: ask_999_def post_json_def)
  from external_retrieval_unclamped [OF u i _ m, of "[]"]
  have "Search (js ''docs'')
        \<lparr>sp_query = js ''plugins'', sp_rewrite_query = True, sp_max_num_results = Fin 999,
         sp_score_threshold = Fin 2, sp_stream = False\<rparr>
       \<in> set (fst (handleAsk ex_world ex_env_llm ask_999 []))"
    by (simp add: ex_env_llm_def ex_env_def)
  with u i show ?thesis by simp
qed

text \<open>
  Property X2. A \<open>POST\<close> to the tool-protocol endpoint whose body is anything but the
  JSON value \<open>null\<close>, a body that is not JSON included, is answered with status 200.
\<close>

theorem mcp_post_status_200:
  assumes "req_method req = js ''POST''" and "req_body req \<noteq> Some JNull"
    and "req_body req \<noteq> Some JUndefined"
  shows "\<exists>res. snd (NLWebMcp_fetch w e req) = Inr res \<and> status res = 200"
proof -
  let ?rpc = "case req_body req of None \<Rightarrow> JObj [] | Some v \<Rightarrow> v"
  have nn: "\<not> nullish ?rpc"
    using assms(2,3) by (cases "req_body req"; cases ?rpc) auto
  have t: "\<And>i hs. \<exists>res. snd (tools_call w e ?rpc i hs) = Inr res \<and> status res = 200"
    by (auto simp: tools_call_def Let_def server_error_def rpc_error_def rpc_result_def json_def
             split: sum.splits prod.splits option.splits)
  show ?thesis
    using assms(1) nn t
    by (auto simp: NLWebMcp_fetch_def Let_def server_error_def rpc_error_def rpc_result_def
          json_def split: sum.splits)
qed

text \<open>
  Property X2, witness: a body that is not JSON is taken as \<open>{}\<close>, whose method is
  not known.
\<close>

theorem mcp_post_status_200_witness:
  "req_method (post_json (js ''/mcp'') None) = js ''POST''
   \<and> NLWebMcp_fetch ex_world ex_env (post_json (js ''/mcp'') None) =
       ([], Inr (rpc_error JNull (getCorsHeaders None None) (- 32601)
                   (js ''Method not found: undefined'') JUndefined))
   \<and> status (rpc_error JNull (getCorsHeaders None None) (- 32601)
                (js ''Method not found: undefined'') JUndefined) = 200"
proof -
  have m: "req_method (post_json (js ''/mcp'') None) = js ''POST''"
    and b: "req_body (post_json (js ''/mcp'') None) \<noteq> Some JNull"
      "req_body (post_json (js ''/mcp'') None) \<noteq> Some JUndefined"
    by (simp_all add: post_json_def)
  have r: "NLWebMcp_fetch ex_world ex_env (post_json (js ''/mcp'') None) =
       ([], Inr (rpc_error JNull (getCorsHeaders None None) (- 32601)
                   (js ''Method not found: undefined'') JUndefined))"
    by (simp add: ex_defs NLWebMcp_fetch_def js_defs)
  from mcp_post_status_200 [OF m b, of ex_world ex_env] r
  have "status (rpc_error JNull (getCorsHeaders None None) (- 32601)
                (js ''Method not found: undefined'') JUndefined) = 200"
    by simp
  with m r show ?thesis by simp
qed

end
